theory Spec2Isabelle
  imports Complex_Main
begin

text \<open>
  The loss pipeline and the epoch loops of \<^verbatim>\<open>train.py\<close>: the angle codec
  (\<^verbatim>\<open>inverse_trig_transform\<close>), the padding mask (\<^verbatim>\<open>unpad_angle_vectors\<close>), the two
  losses (\<^verbatim>\<open>cal_loss\<close>, \<^verbatim>\<open>mse_loss\<close>) and \<^verbatim>\<open>train_epoch\<close> and \<^verbatim>\<open>eval_epoch\<close>.
  The tensor operations of the library are written out as functions on shapes and lists
  of reals; what the repository keeps in other files (the model, the optimizer,
  \<^verbatim>\<open>angles2coords\<close>, \<^verbatim>\<open>drmsd\<close>) is a parameter.
\<close>

section \<open>Errors and results\<close>

text \<open>
  Every exception the loss pipeline of \<^verbatim>\<open>train.py\<close> can raise is a value.
  A computation returns \<open>error + 'a\<close>, with \<open>Inl\<close> the exception.
\<close>

datatype error =
    IndexError          \<comment> \<open>\<^verbatim>\<open>t.shape[0]\<close> of a tensor without dimensions\<close>
  | ViewError           \<comment> \<open>\<^verbatim>\<open>view\<close>: the size does not fit the requested shape\<close>
  | BroadcastError      \<comment> \<open>element-wise operation on shapes that do not broadcast\<close>
  | DeviceError         \<comment> \<open>element-wise operation on tensors of two devices\<close>
  | CudaError           \<comment> \<open>a move to the accelerator where there is none\<close>
  | TypeError           \<comment> \<open>iteration over a tensor without dimensions\<close>
  | StackError          \<comment> \<open>\<^verbatim>\<open>torch.stack\<close> of an empty list\<close>
  | NanResult           \<comment> \<open>the mean of no elements, which the library returns as nan\<close>
  | ZeroDivisionError   \<comment> \<open>Python's float division by zero\<close>

definition and_then :: "error + 'a \<Rightarrow> ('a \<Rightarrow> error + 'b) \<Rightarrow> error + 'b" where
  "and_then m f = (case m of Inl e \<Rightarrow> Inl e | Inr x \<Rightarrow> f x)"

section \<open>Tensors\<close>

text \<open>
  A tensor is its shape, its elements in row-major order (the tensors of the pipeline are
  contiguous) and the device that holds it. Floating-point elements are modelled as reals:
  every element is a finite number, there is no nan, no infinity and no negative zero, and
  no rounding.
\<close>

datatype device = Cpu | Cuda

fun device_type :: "device \<Rightarrow> string" where
  "device_type Cpu = ''cpu''"
| "device_type Cuda = ''cuda''"

record 'a tensor =
  shape :: "nat list"
  data :: "'a list"
  dev :: device

definition numel :: "'a tensor \<Rightarrow> nat" where
  "numel t = length (data t)"

definition wf_tensor :: "'a tensor \<Rightarrow> bool" where
  "wf_tensor t = (length (data t) = prod_list (shape t))"

text \<open>\<^verbatim>\<open>t.to(device)\<close>: fails when the accelerator is asked for and there is none.\<close>

definition to_device :: "bool \<Rightarrow> 'a tensor \<Rightarrow> device \<Rightarrow> error + 'a tensor" where
  "to_device cuda_available t d =
     (if d = Cuda \<and> \<not> cuda_available then Inl CudaError else Inr (t\<lparr>dev := d\<rparr>))"

subsection \<open>Views and indexing\<close>

text \<open>
  \<^verbatim>\<open>t.view(pre..., -1, post...)\<close>: the library multiplies the given sizes; the view exists
  when that product is positive and divides the number of elements, and the size written
  \<open>-1\<close> is the quotient. A product of zero is refused as ambiguous. The library also
  refuses a view that would merge dimensions whose strides do not fit; the codec, on a
  tensor shaped (B, L, 22), only splits the last dimension, which every stride allows,
  so the model has no strides and is meant for tensors of that shape.
\<close>

definition view_infer :: "'a tensor \<Rightarrow> nat list \<Rightarrow> nat list \<Rightarrow> error + 'a tensor" where
  "view_infer t pre post =
     (let newsize = prod_list pre * prod_list post in
      if 0 < newsize \<and> numel t mod newsize = 0
      then Inr (t\<lparr>shape := pre @ [numel t div newsize] @ post\<rparr>)
      else Inl ViewError)"

text \<open>The elements of a tensor whose last dimension is 2, as the pairs of that dimension.\<close>

fun pairs :: "'a list \<Rightarrow> ('a \<times> 'a) list" where
  "pairs (a # b # rest) = (a, b) # pairs rest"
| "pairs _ = []"

text \<open>\<^verbatim>\<open>t[:, :, :, 0]\<close> and \<^verbatim>\<open>t[:, :, :, 1]\<close> on a tensor shaped (B, L, 11, 2).\<close>

definition select_last0 :: "'a tensor \<Rightarrow> 'a tensor" where
  "select_last0 t = t\<lparr>shape := butlast (shape t), data := map fst (pairs (data t))\<rparr>"

definition select_last1 :: "'a tensor \<Rightarrow> 'a tensor" where
  "select_last1 t = t\<lparr>shape := butlast (shape t), data := map snd (pairs (data t))\<rparr>"

subsection \<open>The two-argument arctangent\<close>

text \<open>
  \<^verbatim>\<open>torch.atan2(y, x)\<close> over the reals: the angle of the point \<open>(x, y)\<close>, and 0 at the
  origin.
\<close>

definition atan2 :: "real \<Rightarrow> real \<Rightarrow> real" where
  "atan2 y x =
     (if 0 < x then arctan (y / x)
      else if x < 0 then (if 0 \<le> y then arctan (y / x) + pi else arctan (y / x) - pi)
      else if 0 < y then pi / 2
      else if y < 0 then - (pi / 2)
      else 0)"

text \<open>Element-wise on two tensors of one shape (the only use in the pipeline).\<close>

definition tensor_atan2 :: "real tensor \<Rightarrow> real tensor \<Rightarrow> real tensor" where
  "tensor_atan2 ys xs = ys\<lparr>data := map2 atan2 (data ys) (data xs)\<rparr>"

section \<open>The angle codec\<close>

text \<open>
  \<^verbatim>\<open>
  def inverse_trig_transform(t):
      t = t.view(t.shape[0], -1, 11, 2)
      t_cos = t[:, :, :, 0]
      t_sin = t[:, :, :, 1]
      t = torch.atan2(t_sin, t_cos)
      return t
  \<close>
\<close>

definition inverse_trig_transform :: "real tensor \<Rightarrow> error + real tensor" where
  "inverse_trig_transform t =
     (case shape t of
        [] \<Rightarrow> Inl IndexError
      | b # _ \<Rightarrow>
          and_then (view_infer t [b] [11, 2]) (\<lambda>t.
            let t_cos = select_last0 t;
                t_sin = select_last1 t
            in Inr (tensor_atan2 t_sin t_cos)))"

section \<open>Broadcasting\<close>

text \<open>
  The library's element-wise operations broadcast: the two shapes are aligned at their
  last dimension, and two aligned sizes go together when they are equal or one of them
  is 1. \<open>broadcast_rev\<close> works on the reversed shapes.
\<close>

fun broadcast_rev :: "nat list \<Rightarrow> nat list \<Rightarrow> nat list option" where
  "broadcast_rev [] ys = Some ys"
| "broadcast_rev (x # xs) [] = Some (x # xs)"
| "broadcast_rev (x # xs) (y # ys) =
     (if x = y \<or> y = 1 then map_option ((#) x) (broadcast_rev xs ys)
      else if x = 1 then map_option ((#) y) (broadcast_rev xs ys)
      else None)"

definition broadcast_shapes :: "nat list \<Rightarrow> nat list \<Rightarrow> nat list option" where
  "broadcast_shapes a b = map_option rev (broadcast_rev (rev a) (rev b))"

text \<open>\<open>chunks k n xs\<close>: the first \<open>k\<close> consecutive blocks of \<open>n\<close> elements of \<open>xs\<close>.\<close>

primrec chunks :: "nat \<Rightarrow> nat \<Rightarrow> 'a list \<Rightarrow> 'a list list" where
  "chunks 0 n xs = []"
| "chunks (Suc k) n xs = take n xs # chunks k n (drop n xs)"

text \<open>
  The elements of a tensor of shape \<open>s\<close> expanded to the shape \<open>target\<close> of the same
  rank: a dimension of equal size is walked block by block, a dimension of size 1 is
  repeated.
\<close>

fun expand :: "nat list \<Rightarrow> nat list \<Rightarrow> 'a list \<Rightarrow> 'a list" where
  "expand (d # ds) (e # es) xs =
     (if d = e then concat (map (\<lambda>c. expand ds es c) (chunks d (prod_list ds) xs))
      else concat (replicate e (expand ds es xs)))"
| "expand _ _ xs = xs"

definition align :: "nat list \<Rightarrow> nat list \<Rightarrow> nat list" where
  "align s target = replicate (length target - length s) 1 @ s"

definition expand_to :: "nat list \<Rightarrow> nat list \<Rightarrow> 'a list \<Rightarrow> 'a list" where
  "expand_to s target xs = expand (align s target) target xs"

text \<open>
  \<^verbatim>\<open>a * b\<close> on tensors: both on one device, the shapes broadcast, the elements
  multiplied place by place. (\<open>cal_loss\<close> and \<open>mse_loss\<close> move both tensors to the CPU
  before they multiply, so the library's leniency towards a CPU tensor without dimensions
  beside an accelerator tensor plays no part and is not modelled.)
\<close>

definition tensor_mul :: "real tensor \<Rightarrow> real tensor \<Rightarrow> error + real tensor" where
  "tensor_mul a b =
     (if dev a \<noteq> dev b then Inl DeviceError
      else case broadcast_shapes (shape a) (shape b) of
        None \<Rightarrow> Inl BroadcastError
      | Some s \<Rightarrow>
          Inr \<lparr>shape = s,
               data = map2 (*) (expand_to (shape a) s (data a)) (expand_to (shape b) s (data b)),
               dev = dev a\<rparr>)"

section \<open>The padding mask\<close>

text \<open>\<^verbatim>\<open>gold != 0\<close>: a boolean tensor of the shape of \<open>gold\<close>.\<close>

definition tensor_ne0 :: "real tensor \<Rightarrow> bool tensor" where
  "tensor_ne0 t = \<lparr>shape = shape t, data = map (\<lambda>x. x \<noteq> 0) (data t), dev = dev t\<rparr>"

text \<open>\<^verbatim>\<open>mask.type(torch.FloatTensor)\<close>: the mask as 0/1 numbers, on the CPU.\<close>

definition type_float :: "bool tensor \<Rightarrow> real tensor" where
  "type_float m = \<lparr>shape = shape m, data = map (\<lambda>b. if b then 1 else 0) (data m), dev = Cpu\<rparr>"

text \<open>\<^verbatim>\<open>mask.type(torch.cuda.FloatTensor)\<close>: the same numbers on the accelerator.\<close>

definition type_cuda_float :: "bool \<Rightarrow> bool tensor \<Rightarrow> error + real tensor" where
  "type_cuda_float cuda_available m =
     (if cuda_available then Inr ((type_float m)\<lparr>dev := Cuda\<rparr>) else Inl CudaError)"

text \<open>\<^verbatim>\<open>t.cuda()\<close>\<close>

definition cuda :: "bool \<Rightarrow> 'a tensor \<Rightarrow> error + 'a tensor" where
  "cuda cuda_available t = to_device cuda_available t Cuda"

text \<open>
  \<^verbatim>\<open>
  def unpad_angle_vectors(pred, gold, device):
      not_padded_mask = (gold != 0)
      if device.type == "cuda":
          pred_unpadded = pred.cuda() * not_padded_mask.type(torch.cuda.FloatTensor)
          gold_unpadded = gold.cuda() * not_padded_mask.type(torch.cuda.FloatTensor)
      else:
          pred_unpadded = pred * not_padded_mask.type(torch.FloatTensor)
          gold_unpadded = gold * not_padded_mask.type(torch.FloatTensor)
      return pred_unpadded, gold_unpadded
  \<close>
  The first argument of the model says whether the machine has an accelerator.
\<close>

definition unpad_angle_vectors ::
  "bool \<Rightarrow> real tensor \<Rightarrow> real tensor \<Rightarrow> device \<Rightarrow> error + (real tensor \<times> real tensor)" where
  "unpad_angle_vectors cuda_available pred gold device =
     (let not_padded_mask = tensor_ne0 gold in
      if device_type device = ''cuda'' then
        and_then (cuda cuda_available pred) (\<lambda>pred_c.
        and_then (type_cuda_float cuda_available not_padded_mask) (\<lambda>m.
        and_then (tensor_mul pred_c m) (\<lambda>pred_unpadded.
        and_then (cuda cuda_available gold) (\<lambda>gold_c.
        and_then (type_cuda_float cuda_available not_padded_mask) (\<lambda>m.
        and_then (tensor_mul gold_c m) (\<lambda>gold_unpadded.
        Inr (pred_unpadded, gold_unpadded)))))))
      else
        and_then (tensor_mul pred (type_float not_padded_mask)) (\<lambda>pred_unpadded.
        and_then (tensor_mul gold (type_float not_padded_mask)) (\<lambda>gold_unpadded.
        Inr (pred_unpadded, gold_unpadded))))"

section \<open>The losses\<close>

text \<open>Iteration over a tensor walks its first dimension.\<close>

definition unbind :: "'a tensor \<Rightarrow> error + 'a tensor list" where
  "unbind t =
     (case shape t of
        [] \<Rightarrow> Inl TypeError
      | d # ds \<Rightarrow>
          Inr (map (\<lambda>c. \<lparr>shape = ds, data = c, dev = dev t\<rparr>) (chunks d (prod_list ds) (data t))))"

text \<open>\<^verbatim>\<open>torch.mean(torch.stack(losses))\<close> of a list of scalars.\<close>

definition mean_stack :: "real list \<Rightarrow> error + real" where
  "mean_stack losses =
     (if losses = [] then Inl StackError else Inr (sum_list losses / real (length losses)))"

text \<open>
  \<^verbatim>\<open>
  def cal_loss(pred, gold, device):
      device = torch.device("cpu")
      pred, gold = pred.to(device), gold.to(device)
      pred, gold = inverse_trig_transform(pred), inverse_trig_transform(gold)
      pred, gold = unpad_angle_vectors(pred, gold, device)
      losses = []
      for pred_item, gold_item in zip(pred, gold):
          true_coords = angles2coords(gold_item, device)
          pred_coords = angles2coords(pred_item, device)
          loss = drmsd(pred_coords, true_coords)
          losses.append(loss)
      return torch.mean(torch.stack(losses))
  \<close>
  \<^verbatim>\<open>angles2coords\<close> and \<^verbatim>\<open>drmsd\<close> come from \<^verbatim>\<open>transformer.Structure\<close>, which is
  not among the sources: they are parameters of the model.
\<close>

definition cal_loss ::
  "bool \<Rightarrow> (real tensor \<Rightarrow> device \<Rightarrow> 'c) \<Rightarrow> ('c \<Rightarrow> 'c \<Rightarrow> real) \<Rightarrow>
   real tensor \<Rightarrow> real tensor \<Rightarrow> device \<Rightarrow> error + real" where
  "cal_loss cuda_available angles2coords drmsd pred gold device =
     (let device = Cpu in
      and_then (to_device cuda_available pred device) (\<lambda>pred.
      and_then (to_device cuda_available gold device) (\<lambda>gold.
      and_then (inverse_trig_transform pred) (\<lambda>pred.
      and_then (inverse_trig_transform gold) (\<lambda>gold.
      and_then (unpad_angle_vectors cuda_available pred gold device) (\<lambda>(pred, gold).
      and_then (unbind pred) (\<lambda>pred_items.
      and_then (unbind gold) (\<lambda>gold_items.
        mean_stack
          (map (\<lambda>(pred_item, gold_item).
                  let true_coords = angles2coords gold_item device;
                      pred_coords = angles2coords pred_item device
                  in drmsd pred_coords true_coords)
               (zip pred_items gold_items))))))))))"

text \<open>
  \<^verbatim>\<open>F.mse_loss(input, target)\<close>: the mean of the squared differences, the two tensors
  broadcast to one shape. Of no elements the library returns nan, which is no real number:
  the model returns \<open>Inl NanResult\<close>.
\<close>

definition F_mse_loss :: "real tensor \<Rightarrow> real tensor \<Rightarrow> error + real" where
  "F_mse_loss input target =
     (if dev input \<noteq> dev target then Inl DeviceError
      else case broadcast_shapes (shape input) (shape target) of
        None \<Rightarrow> Inl BroadcastError
      | Some s \<Rightarrow>
          (let sq = map2 (\<lambda>x y. (x - y)\<^sup>2)
                      (expand_to (shape input) s (data input))
                      (expand_to (shape target) s (data target))
           in if sq = [] then Inl NanResult else Inr (sum_list sq / real (length sq))))"

text \<open>
  \<^verbatim>\<open>
  def mse_loss(pred, gold):
      device = torch.device("cpu")
      pred, gold = pred.to(device), gold.to(device)
      pred_unpadded, gold_unpadded = unpad_angle_vectors(pred, gold, device)
      return F.mse_loss(pred_unpadded, gold_unpadded)
  \<close>
\<close>

definition mse_loss :: "bool \<Rightarrow> real tensor \<Rightarrow> real tensor \<Rightarrow> error + real" where
  "mse_loss cuda_available pred gold =
     (let device = Cpu in
      and_then (to_device cuda_available pred device) (\<lambda>pred.
      and_then (to_device cuda_available gold device) (\<lambda>gold.
      and_then (unpad_angle_vectors cuda_available pred gold device)
        (\<lambda>(pred_unpadded, gold_unpadded). F_mse_loss pred_unpadded gold_unpadded))))"

section \<open>The epoch loops\<close>

text \<open>
  A batch is the tuple \<^verbatim>\<open>(src_seq, src_pos, tgt_seq, tgt_pos)\<close> of the data loader, and
  \<^verbatim>\<open>map(lambda x: x.to(device), batch)\<close> moves its four tensors.
\<close>

record batch =
  src_seq :: "real tensor"
  src_pos :: "real tensor"
  tgt_seq :: "real tensor"
  tgt_pos :: "real tensor"

definition batch_to :: "bool \<Rightarrow> batch \<Rightarrow> device \<Rightarrow> error + batch" where
  "batch_to cuda_available b device =
     and_then (to_device cuda_available (src_seq b) device) (\<lambda>s_seq.
     and_then (to_device cuda_available (src_pos b) device) (\<lambda>s_pos.
     and_then (to_device cuda_available (tgt_seq b) device) (\<lambda>t_seq.
     and_then (to_device cuda_available (tgt_pos b) device) (\<lambda>t_pos.
       Inr \<lparr>src_seq = s_seq, src_pos = s_pos, tgt_seq = t_seq, tgt_pos = t_pos\<rparr>))))"

text \<open>
  The variables of \<^verbatim>\<open>train_epoch\<close>. \<open>params\<close> stands for the state of the model and of
  its optimizer, which are not among the sources; \<open>printed\<close> collects the averages the loop
  prints.
\<close>

record 'm epoch_state =
  params :: 'm
  total_loss :: real
  n_batches :: real
  training_losses :: "real list"
  printed :: "real list"

text \<open>\<^verbatim>\<open>np.mean(training_losses[-32:])\<close>\<close>

definition mean_last32 :: "real list \<Rightarrow> real" where
  "mean_last32 ls = (let w = drop (length ls - 32) ls in sum_list w / real (length w))"

text \<open>
  \<^verbatim>\<open>
  for batch_num, batch in enumerate(pbar):
      src_seq, src_pos, tgt_seq, tgt_pos = map(lambda x: x.to(device), batch)
      gold = tgt_seq[:]
      optimizer.zero_grad()
      pred = model(src_seq, src_pos, tgt_seq, tgt_pos)
      loss = cal_loss(pred, gold, device)
      training_losses.append(float(loss))
      loss.backward()
      optimizer.step_and_update_lr()
      total_loss += loss.item()
      n_batches += 1
      if batch_num % 5 == 0 and len(training_losses) > 5:
          print("Last 32 avg loss = {0:.4f}".format(np.mean(training_losses[-32:])))
  \<close>
  The forward pass \<open>model\<close> and the update \<open>backward_step\<close> (zero_grad, backward and
  step_and_update_lr together) are parameters.
\<close>

fun train_loop ::
  "bool \<Rightarrow> ('m \<Rightarrow> real tensor \<Rightarrow> real tensor \<Rightarrow> real tensor \<Rightarrow> real tensor \<Rightarrow> real tensor) \<Rightarrow>
   ('m \<Rightarrow> batch \<Rightarrow> 'm) \<Rightarrow> (real tensor \<Rightarrow> device \<Rightarrow> 'c) \<Rightarrow> ('c \<Rightarrow> 'c \<Rightarrow> real) \<Rightarrow>
   device \<Rightarrow> nat \<Rightarrow> batch list \<Rightarrow> 'm epoch_state \<Rightarrow> error + 'm epoch_state" where
  "train_loop cuda_available model backward_step angles2coords drmsd device batch_num [] st =
     Inr st"
| "train_loop cuda_available model backward_step angles2coords drmsd device batch_num
     (batch # rest) st =
     and_then (batch_to cuda_available batch device) (\<lambda>b.
       let gold = tgt_seq b;
           pred = model (params st) (src_seq b) (src_pos b) (tgt_seq b) (tgt_pos b)
       in and_then (cal_loss cuda_available angles2coords drmsd pred gold device) (\<lambda>loss.
            let losses = training_losses st @ [loss] in
            train_loop cuda_available model backward_step angles2coords drmsd device
              (Suc batch_num) rest
              \<lparr>params = backward_step (params st) b,
               total_loss = total_loss st + loss,
               n_batches = n_batches st + 1,
               training_losses = losses,
               printed =
                 (if batch_num mod 5 = 0 \<and> 5 < length losses
                  then printed st @ [mean_last32 losses] else printed st)\<rparr>))"

text \<open>
  \<^verbatim>\<open>
  def train_epoch(model, training_data, optimizer, device):
      total_loss = 0
      n_batches = 0.0
      training_losses = []
      for ...
      return total_loss / n_batches
  \<close>
  Python raises \<^verbatim>\<open>ZeroDivisionError\<close> on a division by the float zero.
\<close>

definition train_epoch ::
  "bool \<Rightarrow> ('m \<Rightarrow> real tensor \<Rightarrow> real tensor \<Rightarrow> real tensor \<Rightarrow> real tensor \<Rightarrow> real tensor) \<Rightarrow>
   ('m \<Rightarrow> batch \<Rightarrow> 'm) \<Rightarrow> (real tensor \<Rightarrow> device \<Rightarrow> 'c) \<Rightarrow> ('c \<Rightarrow> 'c \<Rightarrow> real) \<Rightarrow>
   'm \<Rightarrow> batch list \<Rightarrow> device \<Rightarrow> error + (real \<times> 'm \<times> real list)" where
  "train_epoch cuda_available model backward_step angles2coords drmsd m training_data device =
     and_then
       (train_loop cuda_available model backward_step angles2coords drmsd device 0 training_data
          \<lparr>params = m, total_loss = 0, n_batches = 0, training_losses = [], printed = []\<rparr>)
       (\<lambda>st. if n_batches st = 0 then Inl ZeroDivisionError
             else Inr (total_loss st / n_batches st, params st, printed st))"

text \<open>
  \<^verbatim>\<open>
  def eval_epoch(model, validation_data, device):
      total_loss = 0
      n_batches = 0.0
      with torch.no_grad():
          for batch in validation_data:
              src_seq, src_pos, tgt_seq, tgt_pos = map(lambda x: x.to(device), batch)
              gold = tgt_seq[:]
              pred = model(src_seq, src_pos, tgt_seq, tgt_pos)
              loss = cal_loss(pred, gold, device)
              total_loss += loss.item()
              n_batches += 1
      return total_loss / n_batches
  \<close>
  The loop state is the pair \<open>(tot, n)\<close> of \<^verbatim>\<open>total_loss\<close> and \<^verbatim>\<open>n_batches\<close>.
\<close>

fun eval_loop ::
  "bool \<Rightarrow> ('m \<Rightarrow> real tensor \<Rightarrow> real tensor \<Rightarrow> real tensor \<Rightarrow> real tensor \<Rightarrow> real tensor) \<Rightarrow>
   (real tensor \<Rightarrow> device \<Rightarrow> 'c) \<Rightarrow> ('c \<Rightarrow> 'c \<Rightarrow> real) \<Rightarrow>
   'm \<Rightarrow> device \<Rightarrow> batch list \<Rightarrow> real \<times> real \<Rightarrow> error + real \<times> real" where
  "eval_loop cuda_available model angles2coords drmsd m device [] (tot, n) = Inr (tot, n)"
| "eval_loop cuda_available model angles2coords drmsd m device (batch # rest) (tot, n) =
     and_then (batch_to cuda_available batch device) (\<lambda>b.
       let gold = tgt_seq b;
           pred = model m (src_seq b) (src_pos b) (tgt_seq b) (tgt_pos b)
       in and_then (cal_loss cuda_available angles2coords drmsd pred gold device) (\<lambda>loss.
            eval_loop cuda_available model angles2coords drmsd m device rest
              (tot + loss, n + 1)))"

definition eval_epoch ::
  "bool \<Rightarrow> ('m \<Rightarrow> real tensor \<Rightarrow> real tensor \<Rightarrow> real tensor \<Rightarrow> real tensor \<Rightarrow> real tensor) \<Rightarrow>
   (real tensor \<Rightarrow> device \<Rightarrow> 'c) \<Rightarrow> ('c \<Rightarrow> 'c \<Rightarrow> real) \<Rightarrow>
   'm \<Rightarrow> batch list \<Rightarrow> device \<Rightarrow> error + real" where
  "eval_epoch cuda_available model angles2coords drmsd m validation_data device =
     and_then
       (eval_loop cuda_available model angles2coords drmsd m device validation_data (0, 0))
       (\<lambda>(tot, n). if n = 0 then Inl ZeroDivisionError else Inr (tot / n))"

section \<open>Notions of the specification\<close>

text \<open>
  Modelled from the spec: the encoder of the angle codec, which is not among the sources.
  The spec's round trip encodes an angle \<open>\<theta>\<close> as the pair \<open>(cos \<theta>, sin \<theta>)\<close>.
\<close>

definition trig_encode :: "real list \<Rightarrow> real list" where
  "trig_encode angles = concat (map (\<lambda>a. [cos a, sin a]) angles)"

text \<open>
  The spec's validity mask, for comparison with \<open>tensor_ne0\<close>: one boolean for a residue
  position, true when the values of the reference at that position are not all zero.
\<close>

definition position_valid_spec :: "real list \<Rightarrow> bool" where
  "position_valid_spec row = (\<exists>x \<in> set row. x \<noteq> 0)"

text \<open>
  The spec's alternate loss, for comparison with \<open>mse_loss\<close>: decode both tensors, mask,
  then take the mean squared error.
\<close>

definition mse_loss_spec :: "bool \<Rightarrow> real tensor \<Rightarrow> real tensor \<Rightarrow> error + real" where
  "mse_loss_spec cuda_available pred gold =
     (let device = Cpu in
      and_then (to_device cuda_available pred device) (\<lambda>pred.
      and_then (to_device cuda_available gold device) (\<lambda>gold.
      and_then (inverse_trig_transform pred) (\<lambda>pred.
      and_then (inverse_trig_transform gold) (\<lambda>gold.
      and_then (unpad_angle_vectors cuda_available pred gold device)
        (\<lambda>(pred_unpadded, gold_unpadded). F_mse_loss pred_unpadded gold_unpadded))))))"

section \<open>Auxiliary notions\<close>

text \<open>A dimension of size \<open>d\<close> can stand for one of size \<open>e\<close>; a shape for another.\<close>

definition stretches :: "nat \<Rightarrow> nat \<Rightarrow> bool" where
  "stretches d e = (d = e \<or> d = 1)"

definition fits :: "nat list \<Rightarrow> nat list \<Rightarrow> bool" where
  "fits s t = list_all2 stretches s t"

text \<open>The tensor \<open>t\<close> times the 0/1 mask of \<open>gold\<close>, both broadcast to the shape \<open>s\<close>.\<close>

definition masked_by :: "device \<Rightarrow> real tensor \<Rightarrow> real tensor \<Rightarrow> nat list \<Rightarrow> real tensor" where
  "masked_by d t gold s =
     \<lparr>shape = s,
      data = map2 (*) (expand_to (shape t) s (data t))
               (expand_to (shape gold) s (data (type_float (tensor_ne0 gold)))),
      dev = d\<rparr>"

text \<open>The decoded angles of a row-major list of (cosine, sine) pairs.\<close>

definition decode :: "real list \<Rightarrow> real list" where
  "decode xs = map (\<lambda>(c, s). atan2 s c) (pairs xs)"

text \<open>A list with the elements zeroed where the reference is zero.\<close>

definition zero_where :: "real list \<Rightarrow> real list \<Rightarrow> real list" where
  "zero_where g xs = map2 (\<lambda>x y. if y \<noteq> 0 then x else 0) xs g"

text \<open>The tensors an iteration over \<open>t\<close> yields, for a tensor with a first dimension.\<close>

definition items :: "'a tensor \<Rightarrow> 'a tensor list" where
  "items t = map (\<lambda>c. \<lparr>shape = tl (shape t), data = c, dev = dev t\<rparr>)
               (chunks (hd (shape t)) (prod_list (tl (shape t))) (data t))"

text \<open>A tensor of decoded angles on the CPU, shaped (B, L, 11).\<close>

definition decoded :: "nat \<Rightarrow> nat \<Rightarrow> real list \<Rightarrow> real tensor" where
  "decoded b l xs = \<lparr>shape = [b, l, 11], data = xs, dev = Cpu\<rparr>"

text \<open>The losses \<open>cal_loss\<close> collects, one for each pair of examples of two tensors.\<close>

definition per_example_losses ::
  "(real tensor \<Rightarrow> device \<Rightarrow> 'c) \<Rightarrow> ('c \<Rightarrow> 'c \<Rightarrow> real) \<Rightarrow> real tensor \<Rightarrow> real tensor \<Rightarrow> real list" where
  "per_example_losses angles2coords drmsd p g =
     map (\<lambda>(pred_item, gold_item).
            drmsd (angles2coords pred_item Cpu) (angles2coords gold_item Cpu))
       (zip (items p) (items g))"

section \<open>Inputs of the examples\<close>

text \<open>
  The examples need some function in the place of \<^verbatim>\<open>angles2coords\<close> and \<^verbatim>\<open>drmsd\<close>:
  the first returns the angles as they come, the second counts the places where two lists
  differ, in tenths. They say nothing about the functions of \<^verbatim>\<open>transformer.Structure\<close>.
\<close>

definition first_angles :: "real tensor \<Rightarrow> device \<Rightarrow> real list" where
  "first_angles t d = data t"

definition count_diff :: "real list \<Rightarrow> real list \<Rightarrow> real" where
  "count_diff xs ys = real (length (filter (\<lambda>(x, y). x \<noteq> y) (zip xs ys))) / 10"

text \<open>
  One residue position of 22 values: the first \<open>k\<close> angles encoded as \<open>(0, 0)\<close>, the other
  \<open>11 - k\<close> as \<open>(0, 1)\<close>, the angle \<open>\<pi>/2\<close>. \<open>encoded_row 11\<close> is the all-zero padding.
\<close>

definition encoded_row :: "nat \<Rightarrow> real list" where
  "encoded_row k = concat (replicate k [0, 0]) @ concat (replicate (11 - k) [0, 1])"

text \<open>
  A residue position whose first angle is 0, encoded as \<open>(cos 0, sin 0) = (1, 0)\<close>, and
  whose other ten angles are \<open>\<pi>/2\<close>.
\<close>

definition zero_angle_row :: "real list" where
  "zero_angle_row = [1, 0] @ concat (replicate 10 [0, 1])"

section \<open>Properties of the arctangent\<close>

lemma atan2_origin: "atan2 0 0 = 0"
  by (simp add: atan2_def)

lemma atan2_upper: "atan2 y x \<le> pi"
proof -
  have b: "arctan (y / x) < pi / 2" by (rule arctan_ubound)
  have p: "0 < pi" by simp
  have n: "x < 0 \<Longrightarrow> 0 \<le> y \<Longrightarrow> arctan (y / x) \<le> 0"
    by (simp add: divide_nonneg_neg arctan_le_zero_iff)
  show ?thesis
    unfolding atan2_def using b p n by (simp; linarith)
qed

lemma atan2_lower: "- pi < atan2 y x"
proof -
  have b: "- (pi / 2) < arctan (y / x)" by (rule arctan_lbound)
  have p: "0 < pi" by simp
  have n: "x < 0 \<Longrightarrow> y < 0 \<Longrightarrow> 0 < arctan (y / x)"
    by (simp add: divide_neg_neg zero_less_arctan_iff)
  show ?thesis
    unfolding atan2_def using b p n by (simp; linarith)
qed

lemma cos_neg_upper:
  assumes "pi / 2 < t" "t \<le> pi"
  shows "cos t < 0"
proof -
  have "0 < cos (pi - t)" using assms by (intro cos_gt_zero_pi) linarith+
  then show ?thesis by simp
qed

lemma cos_neg_lower:
  assumes "- pi < t" "t < - (pi / 2)"
  shows "cos t < 0"
proof -
  have "0 < cos (t + pi)" using assms by (intro cos_gt_zero_pi) linarith+
  then show ?thesis by simp
qed

lemma sin_neg_lower:
  assumes "- pi < t" "t < 0"
  shows "sin t < 0"
proof -
  have "0 < sin (- t)" using assms by (intro sin_gt_zero) linarith+
  then show ?thesis by simp
qed

lemma arctan_tan_upper:
  assumes "pi / 2 < t" "t \<le> pi"
  shows "arctan (sin t / cos t) = t - pi"
proof -
  have "arctan (tan (t - pi)) = t - pi" using assms by (intro arctan_tan) linarith+
  moreover have "tan (t - pi) = tan t" using tan_periodic_pi [of "t - pi"] by simp
  ultimately show ?thesis by (simp add: tan_def)
qed

lemma arctan_tan_lower:
  assumes "- pi < t" "t < - (pi / 2)"
  shows "arctan (sin t / cos t) = t + pi"
proof -
  have "arctan (tan (t + pi)) = t + pi" using assms by (intro arctan_tan) linarith+
  then show ?thesis by (simp add: tan_def)
qed

text \<open>The angle of a point of the unit circle is the angle that placed it there.\<close>

lemma atan2_sin_cos:
  assumes "- pi < t" "t \<le> pi"
  shows "atan2 (sin t) (cos t) = t"
proof -
  consider (mid) "- (pi / 2) < t" "t < pi / 2" | (top) "t = pi / 2" | (bot) "t = - (pi / 2)"
    | (up) "pi / 2 < t" | (low) "t < - (pi / 2)"
    by linarith
  then show ?thesis
  proof cases
    case mid
    then have "0 < cos t" by (rule cos_gt_zero_pi)
    moreover have "arctan (tan t) = t" using mid by (rule arctan_tan)
    ultimately show ?thesis by (simp add: atan2_def tan_def)
  next
    case top
    show ?thesis unfolding top by (simp add: atan2_def)
  next
    case bot
    show ?thesis unfolding bot by (simp add: atan2_def)
  next
    case up
    then have c: "cos t < 0" using assms by (intro cos_neg_upper)
    have s: "0 \<le> sin t" using up assms by (intro sin_ge_zero) linarith+
    show ?thesis using c s arctan_tan_upper [OF up assms(2)] by (simp add: atan2_def)
  next
    case low
    then have c: "cos t < 0" using assms by (intro cos_neg_lower)
    have s: "sin t < 0" using low assms by (intro sin_neg_lower) linarith+
    show ?thesis using c s arctan_tan_lower [OF assms(1) low] by (simp add: atan2_def)
  qed
qed

section \<open>The result monad\<close>

lemma and_then_Inr [simp]: "and_then (Inr x) f = f x"
  by (simp add: and_then_def)

lemma and_then_Inl [simp]: "and_then (Inl e) f = Inl e"
  by (simp add: and_then_def)

section \<open>The angle codec, computed\<close>

lemma length_pairs: "length (pairs xs) = length xs div 2"
  by (induction xs rule: pairs.induct) simp_all

lemma map2_snd_fst: "map2 f (map snd ps) (map fst ps) = map (\<lambda>(c, s). f s c) ps"
  by (induction ps) auto

lemma pairs_trig_encode: "pairs (trig_encode angles) = map (\<lambda>a. (cos a, sin a)) angles"
  by (induction angles) (simp_all add: trig_encode_def)

lemma length_trig_encode: "length (trig_encode angles) = 2 * length angles"
  by (induction angles) (simp_all add: trig_encode_def)

lemma inverse_trig_transform_Inr:
  assumes "shape t = b # rest" "0 < b" "numel t mod (b * 22) = 0"
  shows "inverse_trig_transform t =
           Inr \<lparr>shape = [b, numel t div (b * 22), 11],
                data = map (\<lambda>(c, s). atan2 s c) (pairs (data t)),
                dev = dev t\<rparr>"
  using assms
  by (simp add: inverse_trig_transform_def view_infer_def numel_def select_last0_def
      select_last1_def tensor_atan2_def map2_snd_fst)

lemma inverse_trig_transform_fails:
  "(\<exists>e. inverse_trig_transform t = Inl e) \<longleftrightarrow>
     (shape t = [] \<or> hd (shape t) = 0 \<or> numel t mod (hd (shape t) * 22) \<noteq> 0)"
  by (cases "shape t")
    (auto simp: inverse_trig_transform_def view_infer_def Let_def)

section \<open>Chunks, expansion and broadcasting\<close>

lemma concat_chunks: "concat (chunks k n xs) = take (k * n) xs"
proof (induction k arbitrary: xs)
  case 0
  then show ?case by simp
next
  case (Suc k)
  have "take n xs @ take (k * n) (drop n xs) = take (n + k * n) xs"
    by (simp add: take_add)
  with Suc show ?case by simp
qed

lemma length_chunks [simp]: "length (chunks k n xs) = k"
  by (induction k arbitrary: xs) simp_all

lemma chunks_numeral [simp]:
  "chunks (numeral k) n xs = take n xs # chunks (pred_numeral k) n (drop n xs)"
  by (simp add: numeral_eq_Suc)

lemma chunk_length:
  "c \<in> set (chunks k n xs) \<Longrightarrow> k * n \<le> length xs \<Longrightarrow> length c = n"
proof (induction k arbitrary: xs)
  case 0
  then show ?case by simp
next
  case (Suc k)
  then show ?case by (auto simp: min_def)
qed

lemma chunk_subset: "c \<in> set (chunks k n xs) \<Longrightarrow> set c \<subseteq> set xs"
proof (induction k arbitrary: xs)
  case 0
  then show ?case by simp
next
  case (Suc k)
  from Suc.prems have "c = take n xs \<or> c \<in> set (chunks k n (drop n xs))" by simp
  then show ?case
  proof
    assume "c = take n xs"
    then show ?thesis by (simp add: set_take_subset)
  next
    assume "c \<in> set (chunks k n (drop n xs))"
    then have "set c \<subseteq> set (drop n xs)" by (rule Suc.IH)
    also have "\<dots> \<subseteq> set xs" by (rule set_drop_subset)
    finally show ?thesis .
  qed
qed

lemma expand_same: "length xs = prod_list s \<Longrightarrow> expand s s xs = xs"
proof (induction s arbitrary: xs)
  case Nil
  then show ?case by simp
next
  case (Cons d ds)
  have "map (\<lambda>c. expand ds ds c) (chunks d (prod_list ds) xs) = chunks d (prod_list ds) xs"
  proof (rule map_idI)
    fix c assume c: "c \<in> set (chunks d (prod_list ds) xs)"
    then have "length c = prod_list ds" using Cons.prems by (intro chunk_length [OF c]) simp
    then show "expand ds ds c = c" by (rule Cons.IH)
  qed
  then show ?case using Cons.prems by (simp add: concat_chunks)
qed

lemma set_expand: "set (expand s t xs) \<subseteq> set xs"
proof (induction s t xs rule: expand.induct)
  case (1 d ds e es xs)
  show ?case
  proof (cases "d = e")
    case True
    have "set (expand ds es c) \<subseteq> set xs" if "c \<in> set (chunks d (prod_list ds) xs)" for c
      using "1.IH"(1) [OF True that] chunk_subset [OF that] by blast
    then show ?thesis using True by auto
  next
    case False
    then show ?thesis using "1.IH"(2) by (cases e) auto
  qed
qed simp_all

lemma stretches_refl [simp]: "stretches d d"
  by (simp add: stretches_def)

lemma stretches_one [simp]: "stretches 1 e"
  by (simp add: stretches_def)

lemma fits_Cons [simp]: "fits (d # ds) (e # es) = ((d = e \<or> d = 1) \<and> fits ds es)"
  by (simp add: fits_def stretches_def)

lemma length_concat_const:
  "(\<And>x. x \<in> set xss \<Longrightarrow> length x = n) \<Longrightarrow> length (concat xss) = length xss * n"
  by (induction xss) simp_all

lemma length_concat_replicate: "length (concat (replicate e x)) = e * length x"
  by (induction e) simp_all

lemma length_expand:
  "fits s t \<Longrightarrow> length xs = prod_list s \<Longrightarrow> length (expand s t xs) = prod_list t"
proof (induction s t xs rule: expand.induct)
  case (1 d ds e es xs)
  from "1.prems"(1) have f: "fits ds es" and de: "d = e \<or> d = 1" by simp_all
  show ?case
  proof (cases "d = e")
    case True
    have "length (expand ds es c) = prod_list es" if "c \<in> set (chunks d (prod_list ds) xs)" for c
    proof -
      have "length c = prod_list ds" using "1.prems"(2) by (intro chunk_length [OF that]) simp
      with "1.IH"(1) [OF True that f] show ?thesis .
    qed
    then have "length (concat (map (\<lambda>c. expand ds es c) (chunks d (prod_list ds) xs))) =
        length (map (\<lambda>c. expand ds es c) (chunks d (prod_list ds) xs)) * prod_list es"
      by (intro length_concat_const) auto
    then show ?thesis using True by simp
  next
    case False
    with de have d1: "d = 1" by simp
    then have "length xs = prod_list ds" using "1.prems"(2) by simp
    with "1.IH"(2) [OF False f] have "length (expand ds es xs) = prod_list es" .
    then show ?thesis using False by (simp add: length_concat_replicate)
  qed
qed (simp_all add: fits_def)

lemma broadcast_rev_same: "broadcast_rev xs xs = Some xs"
  by (induction xs) simp_all

lemma broadcast_rev_absorb:
  "broadcast_rev xs ys = Some zs \<Longrightarrow> broadcast_rev zs ys = Some zs"
proof (induction xs ys arbitrary: zs rule: broadcast_rev.induct)
  case (1 ys)
  then show ?case by (simp add: broadcast_rev_same)
next
  case (2 x xs)
  then show ?case by auto
next
  case (3 x xs y ys)
  then show ?case by (auto split: if_splits)
qed

lemma fits_ones: "list_all2 stretches (replicate (length ys) 1) ys"
  by (induction ys) (simp_all del: One_nat_def)

lemma broadcast_rev_fits:
  "broadcast_rev xs ys = Some zs \<Longrightarrow>
     list_all2 stretches (xs @ replicate (length zs - length xs) 1) zs \<and>
     list_all2 stretches (ys @ replicate (length zs - length ys) 1) zs"
proof (induction xs ys arbitrary: zs rule: broadcast_rev.induct)
  case (1 ys)
  then show ?case by (simp add: fits_ones list_all2_same del: One_nat_def)
next
  case (2 x xs)
  then have "zs = x # xs" by simp
  then show ?case using fits_ones [of "x # xs"] by (simp add: list_all2_same del: One_nat_def)
next
  case (3 x xs y ys)
  then show ?case by (auto split: if_splits simp del: One_nat_def)
qed

lemma broadcast_shapes_same: "broadcast_shapes a a = Some a"
  by (simp add: broadcast_shapes_def broadcast_rev_same)

lemma broadcast_shapes_absorb:
  "broadcast_shapes a b = Some s \<Longrightarrow> broadcast_shapes s b = Some s"
  by (auto simp: broadcast_shapes_def dest: broadcast_rev_absorb)

lemma broadcast_shapes_fits:
  assumes "broadcast_shapes a b = Some s"
  shows "fits (align a s) s" and "fits (align b s) s"
proof -
  from assms obtain zs where z: "broadcast_rev (rev a) (rev b) = Some zs" and s: "s = rev zs"
    by (auto simp: broadcast_shapes_def)
  note f = broadcast_rev_fits [OF z]
  have "list_all2 stretches (rev (rev a @ replicate (length zs - length (rev a)) 1)) (rev zs)"
    using f by (simp only: list_all2_rev)
  then show "fits (align a s) s" by (simp add: fits_def align_def s)
  have "list_all2 stretches (rev (rev b @ replicate (length zs - length (rev b)) 1)) (rev zs)"
    using f by (simp only: list_all2_rev)
  then show "fits (align b s) s" by (simp add: fits_def align_def s)
qed

lemma prod_list_align [simp]: "prod_list (align a s) = prod_list a"
  by (simp add: align_def)

lemma align_same [simp]: "align s s = s"
  by (simp add: align_def)

lemma expand_to_same: "length xs = prod_list s \<Longrightarrow> expand_to s s xs = xs"
  by (simp add: expand_to_def expand_same)

lemma length_expand_to:
  "fits (align a s) s \<Longrightarrow> length xs = prod_list a \<Longrightarrow> length (expand_to a s xs) = prod_list s"
  by (simp add: expand_to_def length_expand)

lemma set_expand_to: "set (expand_to a s xs) \<subseteq> set xs"
  by (simp add: expand_to_def set_expand)

section \<open>The padding mask, computed\<close>

lemma unpad_Cpu:
  "unpad_angle_vectors ca pred gold Cpu =
     (if dev pred \<noteq> Cpu then Inl DeviceError
      else case broadcast_shapes (shape pred) (shape gold) of
        None \<Rightarrow> Inl BroadcastError
      | Some s \<Rightarrow>
          if dev gold \<noteq> Cpu then Inl DeviceError
          else Inr (masked_by Cpu pred gold s, masked_by Cpu gold gold (shape gold)))"
  by (simp add: unpad_angle_vectors_def tensor_mul_def type_float_def tensor_ne0_def
      masked_by_def broadcast_shapes_same split: option.splits)

lemma unpad_Cuda:
  "unpad_angle_vectors ca pred gold Cuda =
     (if \<not> ca then Inl CudaError
      else case broadcast_shapes (shape pred) (shape gold) of
        None \<Rightarrow> Inl BroadcastError
      | Some s \<Rightarrow> Inr (masked_by Cuda pred gold s, masked_by Cuda gold gold (shape gold)))"
  by (simp add: unpad_angle_vectors_def tensor_mul_def type_float_def tensor_ne0_def
      type_cuda_float_def cuda_def to_device_def
      masked_by_def broadcast_shapes_same split: option.splits)

lemma map2_mask_self: "map2 (*) g (map (\<lambda>x. if x \<noteq> 0 then 1 else 0) g) = (g :: real list)"
  by (induction g) simp_all

lemma map2_mask_twice:
  "\<forall>y \<in> set ys. y * y = y \<Longrightarrow> map2 (*) (map2 (*) xs ys) ys = map2 (*) xs (ys :: real list)"
proof (induction xs arbitrary: ys)
  case Nil
  then show ?case by simp
next
  case (Cons x xs)
  then show ?case by (cases ys) (simp_all add: mult.assoc)
qed

lemma masked_by_gold:
  "wf_tensor gold \<Longrightarrow>
     masked_by d gold gold (shape gold) = \<lparr>shape = shape gold, data = data gold, dev = d\<rparr>"
  by (simp add: masked_by_def wf_tensor_def expand_to_same type_float_def tensor_ne0_def
      o_def map2_mask_self)

lemma masked_by_twice:
  assumes "wf_tensor pred" "wf_tensor gold" "broadcast_shapes (shape pred) (shape gold) = Some s"
    and "shape g' = shape gold" "data g' = data gold"
  shows "masked_by d (masked_by d' pred gold s) g' s = masked_by d pred gold s"
proof -
  let ?m = "data (type_float (tensor_ne0 gold))"
  let ?p = "expand_to (shape pred) s (data pred)"
  let ?e = "expand_to (shape gold) s ?m"
  have m: "data (type_float (tensor_ne0 g')) = ?m"
    using assms(5) by (simp add: type_float_def tensor_ne0_def)
  have lm: "length ?m = prod_list (shape gold)"
    using assms(2) by (simp add: type_float_def tensor_ne0_def wf_tensor_def)
  have lp: "length ?p = prod_list s"
    using assms(1) broadcast_shapes_fits(1) [OF assms(3)]
    by (intro length_expand_to) (simp_all add: wf_tensor_def)
  have le: "length ?e = prod_list s"
    using lm broadcast_shapes_fits(2) [OF assms(3)] by (intro length_expand_to)
  have "set ?e \<subseteq> set ?m" by (rule set_expand_to)
  also have "\<dots> \<subseteq> {0, 1}" by (auto simp: type_float_def tensor_ne0_def)
  finally have "\<forall>y \<in> set ?e. y * y = y" by auto
  then have "map2 (*) (map2 (*) ?p ?e) ?e = map2 (*) ?p ?e" by (rule map2_mask_twice)
  moreover have "expand_to s s (map2 (*) ?p ?e) = map2 (*) ?p ?e"
    using lp le by (intro expand_to_same) simp
  ultimately show ?thesis
    using assms(4) m by (simp add: masked_by_def)
qed

section \<open>The losses, computed\<close>

lemma to_device_Cpu [simp]: "to_device ca t Cpu = Inr (t\<lparr>dev := Cpu\<rparr>)"
  by (simp add: to_device_def)

lemma map2_mult_mask:
  "map2 (*) xs (map (\<lambda>x. if x \<noteq> 0 then 1 else 0) g) = zero_where g (xs :: real list)"
  unfolding zero_where_def
proof (induction xs arbitrary: g)
  case Nil
  then show ?case by simp
next
  case (Cons x xs)
  then show ?case by (cases g) simp_all
qed

lemma masked_by_same_shape:
  assumes "wf_tensor t" "wf_tensor gold" "shape t = shape gold"
  shows "masked_by d t gold (shape gold) =
           \<lparr>shape = shape gold, data = zero_where (data gold) (data t), dev = d\<rparr>"
proof -
  have "expand_to (shape gold) (shape gold) (data t) = data t"
    using assms(1,3) by (intro expand_to_same) (simp add: wf_tensor_def)
  moreover have "expand_to (shape gold) (shape gold) (data (type_float (tensor_ne0 gold))) =
      data (type_float (tensor_ne0 gold))"
    using assms(2) by (intro expand_to_same) (simp add: wf_tensor_def type_float_def tensor_ne0_def)
  ultimately show ?thesis
    using assms(3) by (simp add: masked_by_def type_float_def tensor_ne0_def o_def map2_mult_mask)
qed

lemma zero_where_self [simp]: "zero_where g g = g"
  by (induction g) (simp_all add: zero_where_def)

lemma zero_where_eq_Nil [simp]: "zero_where g xs = [] \<longleftrightarrow> xs = [] \<or> g = []"
  by (cases xs; cases g) (simp_all add: zero_where_def)

lemma length_zero_where [simp]: "length (zero_where g xs) = min (length xs) (length g)"
  by (simp add: zero_where_def)

lemma unpad_Cpu_same_shape:
  assumes "wf_tensor pred" "wf_tensor gold" "shape pred = shape gold"
    "dev pred = Cpu" "dev gold = Cpu"
  shows "unpad_angle_vectors ca pred gold Cpu =
           Inr (\<lparr>shape = shape gold, data = zero_where (data gold) (data pred), dev = Cpu\<rparr>,
                \<lparr>shape = shape gold, data = data gold, dev = Cpu\<rparr>)"
  using assms
  by (simp add: unpad_Cpu broadcast_shapes_same masked_by_same_shape)

lemma unbind_items: "shape t \<noteq> [] \<Longrightarrow> unbind t = Inr (items t)"
  by (cases "shape t") (simp_all add: unbind_def items_def)

lemma length_items [simp]: "length (items t) = hd (shape t)"
  by (simp add: items_def)

lemma length_decode: "length (decode xs) = length xs div 2"
  by (simp add: decode_def length_pairs)

lemma inverse_trig_transform_rank3:
  assumes "wf_tensor t" "shape t = [b, l, 22]" "0 < b"
  shows "inverse_trig_transform t = Inr \<lparr>shape = [b, l, 11], data = decode (data t), dev = dev t\<rparr>"
proof -
  have n: "numel t = b * 22 * l" using assms(1,2) by (simp add: wf_tensor_def numel_def)
  then have m: "numel t mod (b * 22) = 0" by simp
  have d: "numel t div (b * 22) = l" using n assms(3) by simp
  show ?thesis
    unfolding inverse_trig_transform_Inr [OF assms(2,3) m] d decode_def ..
qed

lemma broadcast_shapes_rank3:
  "broadcast_shapes [b1, l1, k] [b2, l2, k] =
     (if (b1 = b2 \<or> b2 = 1 \<or> b1 = 1) \<and> (l1 = l2 \<or> l2 = 1 \<or> l1 = 1)
      then Some [if b1 = b2 \<or> b2 = 1 then b1 else b2, if l1 = l2 \<or> l2 = 1 then l1 else l2, k]
      else None)"
  by (simp add: broadcast_shapes_def)

lemma mean_stack_Inr: "losses \<noteq> [] \<Longrightarrow> mean_stack losses = Inr (sum_list losses / real (length losses))"
  by (simp add: mean_stack_def)

lemma cal_loss_rank3:
  assumes "wf_tensor pred" "wf_tensor gold" "shape pred = [b1, l1, 22]" "shape gold = [b2, l2, 22]"
    "0 < b1" "0 < b2"
  shows "cal_loss ca angles2coords drmsd pred gold device =
     (case broadcast_shapes [b1, l1, 11] [b2, l2, 11] of
        None \<Rightarrow> Inl BroadcastError
      | Some s \<Rightarrow>
          mean_stack
            (map (\<lambda>(p, g). drmsd (angles2coords p Cpu) (angles2coords g Cpu))
               (zip (items (masked_by Cpu \<lparr>shape = [b1, l1, 11], data = decode (data pred), dev = Cpu\<rparr>
                              \<lparr>shape = [b2, l2, 11], data = decode (data gold), dev = Cpu\<rparr> s))
                    (items (masked_by Cpu \<lparr>shape = [b2, l2, 11], data = decode (data gold), dev = Cpu\<rparr>
                              \<lparr>shape = [b2, l2, 11], data = decode (data gold), dev = Cpu\<rparr> [b2, l2, 11])))))"
proof -
  have p: "inverse_trig_transform (pred\<lparr>dev := Cpu\<rparr>) =
      Inr \<lparr>shape = [b1, l1, 11], data = decode (data pred), dev = Cpu\<rparr>"
    using assms(1,3,5) inverse_trig_transform_rank3 [of "pred\<lparr>dev := Cpu\<rparr>" b1 l1]
    by (simp add: wf_tensor_def)
  have g: "inverse_trig_transform (gold\<lparr>dev := Cpu\<rparr>) =
      Inr \<lparr>shape = [b2, l2, 11], data = decode (data gold), dev = Cpu\<rparr>"
    using assms(2,4,6) inverse_trig_transform_rank3 [of "gold\<lparr>dev := Cpu\<rparr>" b2 l2]
    by (simp add: wf_tensor_def)
  show ?thesis
  proof (cases "broadcast_shapes [b1, l1, 11] [b2, l2, 11]")
    case None
    then show ?thesis by (simp add: cal_loss_def p g unpad_Cpu)
  next
    case (Some s)
    then have "s \<noteq> []" by (auto simp: broadcast_shapes_rank3 split: if_splits)
    then have "unbind (masked_by Cpu \<lparr>shape = [b1, l1, 11], data = decode (data pred), dev = Cpu\<rparr>
                              \<lparr>shape = [b2, l2, 11], data = decode (data gold), dev = Cpu\<rparr> s) =
       Inr (items (masked_by Cpu \<lparr>shape = [b1, l1, 11], data = decode (data pred), dev = Cpu\<rparr>
                              \<lparr>shape = [b2, l2, 11], data = decode (data gold), dev = Cpu\<rparr> s))"
      by (intro unbind_items) (simp add: masked_by_def)
    moreover have "unbind (masked_by Cpu \<lparr>shape = [b2, l2, 11], data = decode (data gold), dev = Cpu\<rparr>
                              \<lparr>shape = [b2, l2, 11], data = decode (data gold), dev = Cpu\<rparr> [b2, l2, 11]) =
       Inr (items (masked_by Cpu \<lparr>shape = [b2, l2, 11], data = decode (data gold), dev = Cpu\<rparr>
                              \<lparr>shape = [b2, l2, 11], data = decode (data gold), dev = Cpu\<rparr> [b2, l2, 11]))"
      by (intro unbind_items) (simp add: masked_by_def)
    ultimately show ?thesis
      using Some by (simp add: cal_loss_def p g unpad_Cpu Let_def)
  qed
qed

lemma cal_loss_rank3_cases:
  assumes "wf_tensor pred" "wf_tensor gold" "shape pred = [b1, l1, 22]" "shape gold = [b2, l2, 22]"
    "0 < b1" "0 < b2"
  shows "(if (b1 = b2 \<or> b2 = 1 \<or> b1 = 1) \<and> (l1 = l2 \<or> l2 = 1 \<or> l1 = 1)
          then \<exists>v. cal_loss ca angles2coords drmsd pred gold device = Inr v
          else cal_loss ca angles2coords drmsd pred gold device = Inl BroadcastError)"
proof (cases "broadcast_shapes [b1, l1, 11] [b2, l2, 11]")
  case None
  then have c: "\<not> ((b1 = b2 \<or> b2 = 1 \<or> b1 = 1) \<and> (l1 = l2 \<or> l2 = 1 \<or> l1 = 1))"
    by (simp add: broadcast_shapes_rank3 split: if_splits)
  have "cal_loss ca angles2coords drmsd pred gold device = Inl BroadcastError"
    unfolding cal_loss_rank3 [OF assms] None by simp
  with c show ?thesis by simp
next
  case (Some s)
  let ?ps = "items (masked_by Cpu \<lparr>shape = [b1, l1, 11], data = decode (data pred), dev = Cpu\<rparr>
                              \<lparr>shape = [b2, l2, 11], data = decode (data gold), dev = Cpu\<rparr> s)"
  let ?gs = "items (masked_by Cpu \<lparr>shape = [b2, l2, 11], data = decode (data gold), dev = Cpu\<rparr>
                              \<lparr>shape = [b2, l2, 11], data = decode (data gold), dev = Cpu\<rparr> [b2, l2, 11])"
  from Some have c: "(b1 = b2 \<or> b2 = 1 \<or> b1 = 1) \<and> (l1 = l2 \<or> l2 = 1 \<or> l1 = 1)"
    and h: "0 < hd s"
    using assms(5,6) by (auto simp: broadcast_shapes_rank3 split: if_splits)
  have "0 < length (zip ?ps ?gs)" using h assms(6) by (simp add: masked_by_def)
  then have "zip ?ps ?gs \<noteq> []" using length_greater_0_conv by blast
  then have "map (\<lambda>(p, g). drmsd (angles2coords p Cpu) (angles2coords g Cpu)) (zip ?ps ?gs) \<noteq> []"
    by simp
  then have "\<exists>v. cal_loss ca angles2coords drmsd pred gold device = Inr v"
    unfolding cal_loss_rank3 [OF assms] Some by (simp add: mean_stack_def)
  with c show ?thesis by simp
qed

lemma wf_decoded:
  assumes "wf_tensor t" "shape t = [b, l, 22]"
  shows "wf_tensor (decoded b l (decode (data t)))"
proof -
  have "length (data t) = 2 * (b * l * 11)" using assms by (simp add: wf_tensor_def)
  then show ?thesis by (simp add: wf_tensor_def decoded_def length_decode)
qed

lemma cal_loss_same_shape:
  assumes "wf_tensor pred" "wf_tensor gold" "shape pred = [b, l, 22]" "shape gold = [b, l, 22]"
    "0 < b"
  shows "cal_loss ca angles2coords drmsd pred gold device =
     Inr (sum_list (per_example_losses angles2coords drmsd
                      (decoded b l (zero_where (decode (data gold)) (decode (data pred))))
                      (decoded b l (decode (data gold)))) / real b)"
proof -
  let ?P = "decoded b l (decode (data pred))" and ?G = "decoded b l (decode (data gold))"
  have wp: "wf_tensor ?P" using assms(1,3) by (rule wf_decoded)
  have wg: "wf_tensor ?G" using assms(2,4) by (rule wf_decoded)
  have m1: "masked_by Cpu ?P ?G [b, l, 11] =
      decoded b l (zero_where (decode (data gold)) (decode (data pred)))"
    using masked_by_same_shape [OF wp wg, of Cpu] by (simp add: decoded_def)
  have m2: "masked_by Cpu ?G ?G [b, l, 11] = ?G"
    using masked_by_gold [OF wg, of Cpu] by (simp add: decoded_def)
  let ?ls = "per_example_losses angles2coords drmsd
      (decoded b l (zero_where (decode (data gold)) (decode (data pred)))) ?G"
  have "length ?ls = b" by (simp add: per_example_losses_def decoded_def)
  then have ne: "?ls \<noteq> []" using assms(5) by auto
  have "cal_loss ca angles2coords drmsd pred gold device = mean_stack ?ls"
    unfolding cal_loss_rank3 [OF assms(1-4) assms(5) assms(5)]
    using m1 m2 by (simp add: broadcast_shapes_same decoded_def per_example_losses_def)
  also have "\<dots> = Inr (sum_list ?ls / real (length ?ls))" using ne by (rule mean_stack_Inr)
  finally show ?thesis using \<open>length ?ls = b\<close> by simp
qed

lemma length_per_example_losses:
  "length (per_example_losses angles2coords drmsd (decoded b l xs) (decoded b l ys)) = b"
  by (simp add: per_example_losses_def decoded_def)

lemma zero_where_agree:
  assumes "length ps = length g" "length qs = length g"
    "\<forall>(y, p, q) \<in> set (zip g (zip ps qs)). y \<noteq> 0 \<longrightarrow> p = q"
  shows "zero_where g ps = zero_where g qs"
  using assms
proof (induction g arbitrary: ps qs)
  case Nil
  then show ?case by (simp add: zero_where_def)
next
  case (Cons y g)
  then obtain p ps' q qs' where "ps = p # ps'" "qs = q # qs'"
    by (metis length_Suc_conv)
  with Cons show ?case by (auto simp: zero_where_def)
qed

section \<open>The inputs of the examples, computed\<close>

lemma replicate_numeral [simp]: "replicate (numeral k) x = x # replicate (pred_numeral k) x"
  by (simp add: numeral_eq_Suc)

lemma pairs_append: "even (length xs) \<Longrightarrow> pairs (xs @ ys) = pairs xs @ pairs ys"
  by (induction xs rule: pairs.induct) simp_all

lemma decode_append: "even (length xs) \<Longrightarrow> decode (xs @ ys) = decode xs @ decode ys"
  by (simp add: decode_def pairs_append)

lemma pairs_concat_replicate: "pairs (concat (replicate k [a, b])) = replicate k (a, b)"
  by (induction k) simp_all

lemma length_concat_pairs: "length (concat (replicate k [a, b])) = 2 * k"
  by (induction k) simp_all

lemma length_encoded_row: "k \<le> 11 \<Longrightarrow> length (encoded_row k) = 22"
  by (simp add: encoded_row_def length_concat_pairs)

lemma atan2_upright: "atan2 1 0 = pi / 2"
  by (simp add: atan2_def)

lemma decode_encoded_row: "decode (encoded_row k) = replicate k 0 @ replicate (11 - k) (pi / 2)"
  by (simp add: encoded_row_def decode_def pairs_append length_concat_pairs
      pairs_concat_replicate atan2_origin atan2_upright)

lemma wf_rows1: "k \<le> 11 \<Longrightarrow> wf_tensor \<lparr>shape = [1, 1, 22], data = encoded_row k, dev = d\<rparr>"
  by (simp add: wf_tensor_def length_encoded_row)

lemma wf_rows2:
  "j \<le> 11 \<Longrightarrow> k \<le> 11 \<Longrightarrow>
     wf_tensor \<lparr>shape = [1, 2, 22], data = encoded_row j @ encoded_row k, dev = d\<rparr>"
  by (simp add: wf_tensor_def length_encoded_row)

lemma decode_zero_angle_row:
  "decode zero_angle_row = 0 # replicate 10 (pi / 2)"
  by (simp add: zero_angle_row_def decode_def pairs_concat_replicate atan2_upright atan2_def)

lemma wf_zero_angle_row: "wf_tensor \<lparr>shape = [1, 1, 22], data = zero_angle_row, dev = d\<rparr>"
  by (simp add: wf_tensor_def zero_angle_row_def length_concat_pairs)

section \<open>C1: the padding mask is a mask of elements\<close>

lemma unpad_decoded:
  assumes "wf_tensor pred" "wf_tensor gold" "shape pred = [b, l, 22]" "shape gold = [b, l, 22]"
  shows "unpad_angle_vectors ca (decoded b l (decode (data pred)))
           (decoded b l (decode (data gold))) Cpu =
         Inr (decoded b l (map2 (*) (decode (data pred))
                (data (type_float (tensor_ne0 (decoded b l (decode (data gold))))))),
              decoded b l (map2 (*) (decode (data gold))
                (data (type_float (tensor_ne0 (decoded b l (decode (data gold))))))))"
proof -
  let ?P = "decoded b l (decode (data pred))" and ?G = "decoded b l (decode (data gold))"
  have wp: "wf_tensor ?P" using assms(1,3) by (rule wf_decoded)
  have wg: "wf_tensor ?G" using assms(2,4) by (rule wf_decoded)
  have m: "data (type_float (tensor_ne0 ?G)) =
      map (\<lambda>y. if y \<noteq> 0 then 1 else 0) (decode (data gold))"
    by (simp add: type_float_def tensor_ne0_def decoded_def o_def)
  show ?thesis
    using unpad_Cpu_same_shape [OF wp wg, of ca]
    unfolding m map2_mult_mask by (simp add: decoded_def)
qed

text \<open>
  Claim C1, amended. In \<open>cal_loss\<close> the mask is one boolean for each decoded angle of the
  reference, not one for each residue position: it is true exactly where that angle is not
  zero. It is computed once, from the reference, and the same 0/1 mask is multiplied into
  the prediction and into the reference. So the finite values of the prediction at the
  elements where the reference is zero (all elements of an all-zero padding position among
  them) contribute nothing to the loss: two predictions of finite values that agree
  wherever the decoded reference is not zero have the same loss, whatever
  \<^verbatim>\<open>angles2coords\<close> and \<^verbatim>\<open>drmsd\<close> compute. The tensors hold real numbers, so the
  statement is about finite values only: in floating point a nan or an infinity times the
  mask's 0 is nan, and such a value of the prediction does reach the loss.
\<close>

theorem C1_mask_per_element:
  assumes "wf_tensor pred" "wf_tensor pred'" "wf_tensor gold"
    "shape pred = [b, l, 22]" "shape pred' = [b, l, 22]" "shape gold = [b, l, 22]" "0 < b"
    "\<forall>(y, p, q) \<in> set (zip (decode (data gold)) (zip (decode (data pred)) (decode (data pred')))).
        y \<noteq> 0 \<longrightarrow> p = q"
  shows "data (type_float (tensor_ne0 (decoded b l (decode (data gold))))) =
           map (\<lambda>y. if y \<noteq> 0 then 1 else 0) (decode (data gold)) \<and>
         unpad_angle_vectors ca (decoded b l (decode (data pred)))
             (decoded b l (decode (data gold))) Cpu =
           Inr (decoded b l (map2 (*) (decode (data pred))
                  (data (type_float (tensor_ne0 (decoded b l (decode (data gold))))))),
                decoded b l (map2 (*) (decode (data gold))
                  (data (type_float (tensor_ne0 (decoded b l (decode (data gold)))))))) \<and>
         cal_loss ca angles2coords drmsd pred gold device =
           cal_loss ca' angles2coords drmsd pred' gold device'"
proof -
  have a: "data (type_float (tensor_ne0 (decoded b l (decode (data gold))))) =
      map (\<lambda>y. if y \<noteq> 0 then 1 else 0) (decode (data gold))"
    by (simp add: type_float_def tensor_ne0_def decoded_def o_def)
  note u = unpad_decoded [OF assms(1,3,4,6), of ca]
  have lp: "length (decode (data pred)) = length (decode (data gold))"
    using assms(1,3,4,6) by (simp add: length_decode wf_tensor_def)
  have lq: "length (decode (data pred')) = length (decode (data gold))"
    using assms(2,3,5,6) by (simp add: length_decode wf_tensor_def)
  have z: "zero_where (decode (data gold)) (decode (data pred)) =
      zero_where (decode (data gold)) (decode (data pred'))"
    using lp lq assms(8) by (rule zero_where_agree)
  have "cal_loss ca angles2coords drmsd pred gold device =
      cal_loss ca' angles2coords drmsd pred' gold device'"
    unfolding cal_loss_same_shape [OF assms(1,3,4,6,7)] cal_loss_same_shape [OF assms(2,3,5,6,7)] z ..
  with a u show ?thesis by blast
qed

theorem C1_mask_per_element_witness:
  "cal_loss False first_angles count_diff
     \<lparr>shape = [1, 2, 22], data = encoded_row 0 @ encoded_row 3, dev = Cpu\<rparr>
     \<lparr>shape = [1, 2, 22], data = encoded_row 0 @ encoded_row 11, dev = Cpu\<rparr> Cpu =
   cal_loss False first_angles count_diff
     \<lparr>shape = [1, 2, 22], data = encoded_row 0 @ encoded_row 7, dev = Cpu\<rparr>
     \<lparr>shape = [1, 2, 22], data = encoded_row 0 @ encoded_row 11, dev = Cpu\<rparr> Cpu \<and>
   encoded_row 3 \<noteq> encoded_row 7"
proof -
  let ?p = "\<lparr>shape = [1, 2, 22], data = encoded_row 0 @ encoded_row 3, dev = Cpu\<rparr>"
  let ?q = "\<lparr>shape = [1, 2, 22], data = encoded_row 0 @ encoded_row 7, dev = Cpu\<rparr>"
  let ?g = "\<lparr>shape = [1, 2, 22], data = encoded_row 0 @ encoded_row 11, dev = Cpu\<rparr>"
  have w1: "wf_tensor ?p" by (rule wf_rows2) simp_all
  have w2: "wf_tensor ?q" by (rule wf_rows2) simp_all
  have w3: "wf_tensor ?g" by (rule wf_rows2) simp_all
  have h: "\<forall>(y, p, q) \<in> set (zip (decode (data ?g)) (zip (decode (data ?p)) (decode (data ?q)))).
      y \<noteq> 0 \<longrightarrow> p = q"
    by (simp add: decode_append length_encoded_row decode_encoded_row)
  have n: "encoded_row 3 \<noteq> encoded_row 7" by (simp add: encoded_row_def)
  show ?thesis
    using C1_mask_per_element [OF w1 w2 w3 _ _ _ _ h, of 1 2 False first_angles count_diff Cpu False Cpu] n
    by simp
qed

text \<open>
  The claim as stated fails at a position that is no padding: the reference angles
  \<open>0, \<pi>/2, \<dots>, \<pi>/2\<close> are encoded with values that are not all zero, so the spec's mask
  is true for the position, yet the mask of the code is false at the first angle and the
  prediction's value there is dropped.
\<close>

theorem C1_mask_per_element_counterexample:
  "position_valid_spec (zero_angle_row) \<and>
   inverse_trig_transform \<lparr>shape = [1, 1, 22], data = zero_angle_row, dev = Cpu\<rparr> =
     Inr (decoded 1 1 (decode (zero_angle_row))) \<and>
   data (tensor_ne0 (decoded 1 1 (decode (zero_angle_row)))) =
     [False, True, True, True, True, True, True, True, True, True, True] \<and>
   unpad_angle_vectors False (decoded 1 1 [1, 1, 1, 1, 1, 1, 1, 1, 1, 1, 1])
     (decoded 1 1 (decode (zero_angle_row))) Cpu =
   Inr (decoded 1 1 [0, 1, 1, 1, 1, 1, 1, 1, 1, 1, 1], decoded 1 1 (decode (zero_angle_row)))"
proof -
  have a: "position_valid_spec (zero_angle_row)"
    by (simp add: position_valid_spec_def zero_angle_row_def)
  have b: "inverse_trig_transform \<lparr>shape = [1, 1, 22], data = zero_angle_row, dev = Cpu\<rparr> =
     Inr (decoded 1 1 (decode (zero_angle_row)))"
    using inverse_trig_transform_rank3 [OF wf_zero_angle_row [of Cpu], of 1 1]
    by (simp add: decoded_def)
  have c: "data (tensor_ne0 (decoded 1 1 (decode (zero_angle_row)))) =
     [False, True, True, True, True, True, True, True, True, True, True]"
    by (simp add: tensor_ne0_def decoded_def decode_zero_angle_row)
  have w1: "wf_tensor (decoded 1 1 [1, 1, 1, 1, 1, 1, 1, 1, 1, 1, 1])"
    by (simp add: wf_tensor_def decoded_def)
  have w2: "wf_tensor (decoded 1 1 (decode (zero_angle_row)))"
    by (simp add: wf_tensor_def decoded_def decode_zero_angle_row)
  have d: "unpad_angle_vectors False (decoded 1 1 [1, 1, 1, 1, 1, 1, 1, 1, 1, 1, 1])
     (decoded 1 1 (decode (zero_angle_row))) Cpu =
   Inr (decoded 1 1 [0, 1, 1, 1, 1, 1, 1, 1, 1, 1, 1], decoded 1 1 (decode (zero_angle_row)))"
    using unpad_Cpu_same_shape [OF w1 w2, of False]
    by (simp add: decoded_def decode_zero_angle_row zero_where_def)
  from a b c d show ?thesis by blast
qed

section \<open>C2: the alternate loss does not decode\<close>

lemma mse_loss_same_shape:
  assumes "wf_tensor pred" "wf_tensor gold" "shape pred = shape gold" "data gold \<noteq> []"
  shows "mse_loss ca pred gold =
           Inr (sum_list (map2 (\<lambda>p g. (p - g)\<^sup>2) (zero_where (data gold) (data pred)) (data gold))
                / real (length (data gold)))"
proof -
  let ?p = "pred\<lparr>dev := Cpu\<rparr>" and ?g = "gold\<lparr>dev := Cpu\<rparr>"
  have l: "length (data pred) = length (data gold)"
    using assms(1-3) by (simp add: wf_tensor_def)
  have u: "unpad_angle_vectors ca ?p ?g Cpu =
      Inr (\<lparr>shape = shape ?g, data = zero_where (data ?g) (data ?p), dev = Cpu\<rparr>,
           \<lparr>shape = shape ?g, data = data ?g, dev = Cpu\<rparr>)"
    using assms(1-3) by (intro unpad_Cpu_same_shape) (simp_all add: wf_tensor_def)
  have e1: "expand_to (shape gold) (shape gold) (zero_where (data gold) (data pred)) =
      zero_where (data gold) (data pred)"
    using assms(2) l by (intro expand_to_same) (simp add: wf_tensor_def)
  have e2: "expand_to (shape gold) (shape gold) (data gold) = data gold"
    using assms(2) by (intro expand_to_same) (simp add: wf_tensor_def)
  show ?thesis
    using assms(4) l
    by (auto simp: mse_loss_def u F_mse_loss_def broadcast_shapes_same e1 e2 Let_def)
qed

lemma mse_loss_spec_same_shape:
  assumes "wf_tensor pred" "wf_tensor gold" "shape pred = [b, l, 22]" "shape gold = [b, l, 22]"
    "0 < b"
  shows "mse_loss_spec ca pred gold =
           F_mse_loss (decoded b l (zero_where (decode (data gold)) (decode (data pred))))
             (decoded b l (decode (data gold)))"
proof -
  have p: "inverse_trig_transform (pred\<lparr>dev := Cpu\<rparr>) = Inr (decoded b l (decode (data pred)))"
    using assms(1,3,5) inverse_trig_transform_rank3 [of "pred\<lparr>dev := Cpu\<rparr>" b l]
    by (simp add: wf_tensor_def decoded_def)
  have g: "inverse_trig_transform (gold\<lparr>dev := Cpu\<rparr>) = Inr (decoded b l (decode (data gold)))"
    using assms(2,4,5) inverse_trig_transform_rank3 [of "gold\<lparr>dev := Cpu\<rparr>" b l]
    by (simp add: wf_tensor_def decoded_def)
  have wp: "wf_tensor (decoded b l (decode (data pred)))" using assms(1,3) by (rule wf_decoded)
  have wg: "wf_tensor (decoded b l (decode (data gold)))" using assms(2,4) by (rule wf_decoded)
  have u: "unpad_angle_vectors ca (decoded b l (decode (data pred)))
      (decoded b l (decode (data gold))) Cpu =
      Inr (decoded b l (zero_where (decode (data gold)) (decode (data pred))),
           decoded b l (decode (data gold)))"
    using unpad_Cpu_same_shape [OF wp wg, of ca] by (simp add: decoded_def)
  show ?thesis by (simp add: mse_loss_spec_def p g u)
qed

text \<open>
  Claim C2, amended. \<open>mse_loss\<close> does not pass its tensors through the angle codec: it
  moves them to the CPU, applies the padding mask to the tensors as they are given, and
  returns the mean squared error of the two masked tensors. For two tensors of one shape
  that is the mean, over all elements, of the squared difference between the masked
  prediction and the reference. It performs no structure reconstruction (it has no
  \<^verbatim>\<open>angles2coords\<close> or \<^verbatim>\<open>drmsd\<close> to call).
\<close>

theorem C2_mse_loss_no_decoding:
  assumes "wf_tensor pred" "wf_tensor gold" "shape pred = shape gold" "data gold \<noteq> []"
  shows "mse_loss ca pred gold =
           Inr (sum_list (map2 (\<lambda>p g. (p - g)\<^sup>2) (zero_where (data gold) (data pred)) (data gold))
                / real (length (data gold)))"
  using assms by (rule mse_loss_same_shape)

theorem C2_mse_loss_no_decoding_witness:
  "mse_loss False \<lparr>shape = [1, 2], data = [3, 4], dev = Cpu\<rparr>
     \<lparr>shape = [1, 2], data = [0, 5], dev = Cpu\<rparr> = Inr (1 / 2)"
proof -
  have w1: "wf_tensor \<lparr>shape = [1, 2], data = [3, 4 :: real], dev = Cpu\<rparr>"
    by (simp add: wf_tensor_def)
  have w2: "wf_tensor \<lparr>shape = [1, 2], data = [0, 5 :: real], dev = Cpu\<rparr>"
    by (simp add: wf_tensor_def)
  show ?thesis
    using C2_mse_loss_no_decoding [OF w1 w2, of False] by (simp add: zero_where_def)
qed

text \<open>
  The claim as stated fails on a prediction of zeros against a reference whose angles are
  all \<open>\<pi>/2\<close>: the code returns 1/2, the loss on the decoded angles is \<open>\<pi>\<^sup>2/4\<close>.
\<close>

theorem C2_mse_loss_no_decoding_counterexample:
  "mse_loss False \<lparr>shape = [1, 1, 22], data = encoded_row 11, dev = Cpu\<rparr>
     \<lparr>shape = [1, 1, 22], data = encoded_row 0, dev = Cpu\<rparr> = Inr (1 / 2) \<and>
   mse_loss_spec False \<lparr>shape = [1, 1, 22], data = encoded_row 11, dev = Cpu\<rparr>
     \<lparr>shape = [1, 1, 22], data = encoded_row 0, dev = Cpu\<rparr> = Inr (pi\<^sup>2 / 4) \<and>
   (1 / 2 :: real) \<noteq> pi\<^sup>2 / 4"
proof -
  let ?p = "\<lparr>shape = [1, 1, 22], data = encoded_row 11, dev = Cpu\<rparr>"
  let ?g = "\<lparr>shape = [1, 1, 22], data = encoded_row 0, dev = Cpu\<rparr>"
  have w1: "wf_tensor ?p" by (rule wf_rows1) simp
  have w2: "wf_tensor ?g" by (rule wf_rows1) simp
  have a: "mse_loss False ?p ?g = Inr (1 / 2)"
    using mse_loss_same_shape [OF w1 w2, of False]
    by (simp add: encoded_row_def zero_where_def)
  have "mse_loss_spec False ?p ?g =
      F_mse_loss (decoded 1 1 (zero_where (decode (data ?g)) (decode (data ?p))))
        (decoded 1 1 (decode (data ?g)))"
    using w1 w2 by (intro mse_loss_spec_same_shape) simp_all
  then have b: "mse_loss_spec False ?p ?g = Inr (pi\<^sup>2 / 4)"
    by (simp add: decode_encoded_row F_mse_loss_def decoded_def broadcast_shapes_same
        expand_to_same zero_where_def power2_eq_square)
  have "2 * 2 \<le> pi * pi" using pi_ge_two by (intro mult_mono) simp_all
  then have c: "(1 / 2 :: real) \<noteq> pi\<^sup>2 / 4" by (simp add: power2_eq_square)
  from a b c show ?thesis by simp
qed

section \<open>C3 and C7: the angle codec\<close>

text \<open>
  Claim C3. For every angle \<open>\<theta>\<close> with \<open>-\<pi> < \<theta> \<le> \<pi>\<close>, decoding the encoded pair
  \<open>(cos \<theta>, sin \<theta>)\<close> with \<open>inverse_trig_transform\<close> returns \<open>\<theta>\<close>, exactly over the reals:
  a tensor shaped (B, L, 22) that holds the encoded pairs of a list of such angles decodes
  to the tensor shaped (B, L, 11) that holds the angles.
\<close>

theorem C3_codec_round_trip:
  assumes "\<forall>a \<in> set angles. - pi < a \<and> a \<le> pi" "0 < b" "length angles = b * l * 11"
  shows "inverse_trig_transform \<lparr>shape = [b, l, 22], data = trig_encode angles, dev = d\<rparr> =
           Inr \<lparr>shape = [b, l, 11], data = angles, dev = d\<rparr>"
proof -
  let ?t = "\<lparr>shape = [b, l, 22], data = trig_encode angles, dev = d\<rparr>"
  have n: "numel ?t = b * 22 * l"
    using assms(3) by (simp add: numel_def length_trig_encode)
  have "map (\<lambda>(c, s). atan2 s c) (pairs (trig_encode angles)) = angles"
    using assms(1) by (simp add: pairs_trig_encode o_def atan2_sin_cos map_idI)
  then show ?thesis
    using assms(2) n by (simp add: inverse_trig_transform_Inr [of ?t b "[l, 22]"])
qed

theorem C3_codec_round_trip_witness:
  "inverse_trig_transform
     \<lparr>shape = [1, 1, 22],
      data = trig_encode [0, pi, pi / 2, - (pi / 2), 1, -1, 2, - (1 / 2), pi / 4, 1 / 2, 0], dev = Cpu\<rparr> =
   Inr \<lparr>shape = [1, 1, 11],
      data = [0, pi, pi / 2, - (pi / 2), 1, -1, 2, - (1 / 2), pi / 4, 1 / 2, 0], dev = Cpu\<rparr>"
proof -
  have p: "2 \<le> pi" by (rule pi_ge_two)
  have "\<forall>a \<in> set [0, pi, pi / 2, - (pi / 2), 1, -1, 2, - (1 / 2), pi / 4, 1 / 2, 0]. - pi < a \<and> a \<le> pi"
    using p by simp
  then show ?thesis by (intro C3_codec_round_trip) simp_all
qed

text \<open>
  Claim C7, amended. The codec takes its batch size from the first dimension and views the
  tensor as (B, -1, 11, 2). For every tensor shaped (B, L, 22) with \<open>B\<close> positive, as the
  docstring of the function has it, and for all real (cosine, sine) pairs in it, decoding
  succeeds, the result is shaped (B, L, 11), every output angle lies in \<open>(-\<pi>, \<pi>]\<close>,
  and the pair \<open>(0, 0)\<close> decodes to 0. The values are real numbers: a negative
  floating-point zero, which the library's arctangent sends to \<open>\<pi>\<close> or \<open>-\<pi>\<close>, is none.
  The codec is not total on every tensor shaped (..., 22): a tensor of the single dimension
  22 is refused by the view.
\<close>

theorem C7_codec_total:
  assumes "wf_tensor t" "shape t = [b, l, 22]" "0 < b"
  shows "\<exists>r. inverse_trig_transform t = Inr r \<and> shape r = [b, l, 11] \<and>
           data r = map (\<lambda>(c, s). atan2 s c) (pairs (data t)) \<and>
           (\<forall>a \<in> set (data r). - pi < a \<and> a \<le> pi) \<and> atan2 0 0 = 0"
  unfolding inverse_trig_transform_rank3 [OF assms] decode_def
  by (auto simp: atan2_lower atan2_upper atan2_origin)

theorem C7_codec_total_witness:
  "wf_tensor \<lparr>shape = [1, 1, 22],
      data = [1, 0, 0, 1, 0, 0, -1, 0, 0, -1, 1, 0, 1, 0, 1, 0, 1, 0, 1, 0, 1, 0], dev = Cpu\<rparr> \<and>
   (\<exists>r. inverse_trig_transform \<lparr>shape = [1, 1, 22],
      data = [1, 0, 0, 1, 0, 0, -1, 0, 0, -1, 1, 0, 1, 0, 1, 0, 1, 0, 1, 0, 1, 0], dev = Cpu\<rparr> = Inr r \<and>
      shape r = [1, 1, 11] \<and> (\<forall>a \<in> set (data r). - pi < a \<and> a \<le> pi))"
proof -
  let ?t = "\<lparr>shape = [1, 1, 22],
      data = [1, 0, 0, 1, 0, 0, -1, 0, 0, -1, 1, 0, 1, 0, 1, 0, 1, 0, 1, 0, 1, 0 :: real], dev = Cpu\<rparr>"
  have w: "wf_tensor ?t" by (simp add: wf_tensor_def)
  have s: "shape ?t = [1, 1, 22]" by simp
  from C7_codec_total [OF w s] show ?thesis by (auto simp: wf_tensor_def)
qed

text \<open>
  The claim as stated fails on a tensor shaped (22): the view asks for a multiple of
  22 * 22 elements and the tensor has 22.
\<close>

theorem C7_codec_total_counterexample:
  "wf_tensor \<lparr>shape = [22],
      data = [1, 0, 1, 0, 1, 0, 1, 0, 1, 0, 1, 0, 1, 0, 1, 0, 1, 0, 1, 0, 1, 0 :: real], dev = Cpu\<rparr> \<and>
   inverse_trig_transform \<lparr>shape = [22],
      data = [1, 0, 1, 0, 1, 0, 1, 0, 1, 0, 1, 0, 1, 0, 1, 0, 1, 0, 1, 0, 1, 0], dev = Cpu\<rparr>
     = Inl ViewError"
  by (simp add: wf_tensor_def inverse_trig_transform_def view_infer_def numel_def)

section \<open>C4: the batch loss is the mean of the losses of the examples\<close>

text \<open>
  Claim C4. For a batch of \<open>B\<close> examples (prediction and reference shaped (B, L, 22),
  \<open>B\<close> positive) \<open>cal_loss\<close> computes \<open>B\<close> losses, one for each example, and returns
  their arithmetic mean; when the four losses of a batch of four are 0.1, 0.2, 0.3 and 0.4
  it returns 0.25.
\<close>

theorem C4_batch_mean:
  assumes "wf_tensor pred" "wf_tensor gold" "shape pred = [b, l, 22]" "shape gold = [b, l, 22]"
    "0 < b"
  shows "length (per_example_losses angles2coords drmsd
                   (decoded b l (zero_where (decode (data gold)) (decode (data pred))))
                   (decoded b l (decode (data gold)))) = b \<and>
         cal_loss ca angles2coords drmsd pred gold device =
           Inr (sum_list (per_example_losses angles2coords drmsd
                            (decoded b l (zero_where (decode (data gold)) (decode (data pred))))
                            (decoded b l (decode (data gold)))) / real b) \<and>
         (per_example_losses angles2coords drmsd
            (decoded b l (zero_where (decode (data gold)) (decode (data pred))))
            (decoded b l (decode (data gold))) = [1 / 10, 2 / 10, 3 / 10, 4 / 10] \<longrightarrow>
          cal_loss ca angles2coords drmsd pred gold device = Inr (25 / 100))"
proof -
  let ?ls = "per_example_losses angles2coords drmsd
      (decoded b l (zero_where (decode (data gold)) (decode (data pred))))
      (decoded b l (decode (data gold)))"
  have l: "length ?ls = b" by (rule length_per_example_losses)
  have c: "cal_loss ca angles2coords drmsd pred gold device = Inr (sum_list ?ls / real b)"
    using assms by (rule cal_loss_same_shape)
  have "cal_loss ca angles2coords drmsd pred gold device = Inr (25 / 100)"
    if "?ls = [1 / 10, 2 / 10, 3 / 10, 4 / 10]"
  proof -
    from that l have "b = 4" by simp
    with c that show ?thesis by simp
  qed
  with l c show ?thesis by blast
qed

theorem C4_batch_mean_witness:
  "cal_loss False first_angles count_diff
     \<lparr>shape = [4, 1, 22],
      data = encoded_row 1 @ encoded_row 2 @ encoded_row 3 @ encoded_row 4, dev = Cpu\<rparr>
     \<lparr>shape = [4, 1, 22],
      data = encoded_row 0 @ encoded_row 0 @ encoded_row 0 @ encoded_row 0, dev = Cpu\<rparr> Cuda =
   Inr (25 / 100)"
proof -
  let ?p = "\<lparr>shape = [4, 1, 22],
      data = encoded_row 1 @ encoded_row 2 @ encoded_row 3 @ encoded_row 4, dev = Cpu\<rparr>"
  let ?g = "\<lparr>shape = [4, 1, 22],
      data = encoded_row 0 @ encoded_row 0 @ encoded_row 0 @ encoded_row 0, dev = Cpu\<rparr>"
  have w1: "wf_tensor ?p" by (simp add: wf_tensor_def length_encoded_row)
  have w2: "wf_tensor ?g" by (simp add: wf_tensor_def length_encoded_row)
  have d1: "decode (data ?p) =
      decode (encoded_row 1) @ decode (encoded_row 2) @ decode (encoded_row 3) @ decode (encoded_row 4)"
    by (simp add: decode_append length_encoded_row)
  have d2: "decode (data ?g) =
      decode (encoded_row 0) @ decode (encoded_row 0) @ decode (encoded_row 0) @ decode (encoded_row 0)"
    by (simp add: decode_append length_encoded_row)
  have l: "per_example_losses first_angles count_diff
      (decoded 4 1 (zero_where (decode (data ?g)) (decode (data ?p))))
      (decoded 4 1 (decode (data ?g))) = [1 / 10, 2 / 10, 3 / 10, 4 / 10]"
    unfolding d1 d2
    by (simp add: decode_encoded_row per_example_losses_def items_def decoded_def
        zero_where_def first_angles_def count_diff_def)
  show ?thesis
    using C4_batch_mean [OF w1 w2, of 4 1 first_angles count_diff False Cuda] l by simp
qed

section \<open>C5: the padding mask is idempotent\<close>

text \<open>
  Claim C5. Applying \<open>unpad_angle_vectors\<close> to its own result yields the same pair of
  tensors as applying it once (and the same error where the first application fails), on
  either device, over the reals.
\<close>

theorem C5_mask_idempotent:
  assumes "wf_tensor pred" "wf_tensor gold"
  shows "and_then (unpad_angle_vectors ca pred gold device)
           (\<lambda>(p, g). unpad_angle_vectors ca p g device) =
         unpad_angle_vectors ca pred gold device"
proof (cases device)
  case Cpu
  show ?thesis
  proof (cases "broadcast_shapes (shape pred) (shape gold)")
    case None
    then show ?thesis by (simp add: Cpu unpad_Cpu)
  next
    case (Some s)
    have g: "masked_by Cpu gold gold (shape gold) = \<lparr>shape = shape gold, data = data gold, dev = Cpu\<rparr>"
      using assms(2) by (rule masked_by_gold)
    have w: "wf_tensor \<lparr>shape = shape gold, data = data gold, dev = Cpu\<rparr>"
      using assms(2) by (simp add: wf_tensor_def)
    have t: "masked_by Cpu (masked_by Cpu pred gold s) \<lparr>shape = shape gold, data = data gold, dev = Cpu\<rparr> s
               = masked_by Cpu pred gold s"
      using assms Some by (intro masked_by_twice) simp_all
    show ?thesis
      using Some broadcast_shapes_absorb [OF Some] t masked_by_gold [OF w, of Cpu]
      by (simp add: Cpu unpad_Cpu g) (simp add: masked_by_def)
  qed
next
  case Cuda
  show ?thesis
  proof (cases "broadcast_shapes (shape pred) (shape gold)")
    case None
    then show ?thesis by (simp add: Cuda unpad_Cuda)
  next
    case (Some s)
    have g: "masked_by Cuda gold gold (shape gold) = \<lparr>shape = shape gold, data = data gold, dev = Cuda\<rparr>"
      using assms(2) by (rule masked_by_gold)
    have w: "wf_tensor \<lparr>shape = shape gold, data = data gold, dev = Cuda\<rparr>"
      using assms(2) by (simp add: wf_tensor_def)
    have t: "masked_by Cuda (masked_by Cuda pred gold s) \<lparr>shape = shape gold, data = data gold, dev = Cuda\<rparr> s
               = masked_by Cuda pred gold s"
      using assms Some by (intro masked_by_twice) simp_all
    show ?thesis
      using Some broadcast_shapes_absorb [OF Some] t masked_by_gold [OF w, of Cuda]
      by (simp add: Cuda unpad_Cuda g) (simp add: masked_by_def)
  qed
qed

lemma unpad_example:
  "unpad_angle_vectors False \<lparr>shape = [1, 2], data = [3, 4], dev = Cpu\<rparr>
        \<lparr>shape = [1, 2], data = [0, 5], dev = Cpu\<rparr> Cpu =
      Inr (\<lparr>shape = [1, 2], data = [0, 4], dev = Cpu\<rparr>, \<lparr>shape = [1, 2], data = [0, 5], dev = Cpu\<rparr>)"
  by (simp add: unpad_Cpu broadcast_shapes_def masked_by_def expand_to_def align_def
      type_float_def tensor_ne0_def)

theorem C5_mask_idempotent_witness:
  "wf_tensor \<lparr>shape = [1, 2], data = [3, 4 :: real], dev = Cpu\<rparr> \<and>
   wf_tensor \<lparr>shape = [1, 2], data = [0, 5 :: real], dev = Cpu\<rparr> \<and>
   and_then
     (unpad_angle_vectors False \<lparr>shape = [1, 2], data = [3, 4], dev = Cpu\<rparr>
        \<lparr>shape = [1, 2], data = [0, 5], dev = Cpu\<rparr> Cpu)
     (\<lambda>(p, g). unpad_angle_vectors False p g Cpu) =
   Inr (\<lparr>shape = [1, 2], data = [0, 4], dev = Cpu\<rparr>, \<lparr>shape = [1, 2], data = [0, 5], dev = Cpu\<rparr>)"
proof -
  have w1: "wf_tensor \<lparr>shape = [1, 2], data = [3, 4 :: real], dev = Cpu\<rparr>"
    by (simp add: wf_tensor_def)
  have w2: "wf_tensor \<lparr>shape = [1, 2], data = [0, 5 :: real], dev = Cpu\<rparr>"
    by (simp add: wf_tensor_def)
  show ?thesis
    using C5_mask_idempotent [OF w1 w2, of False Cpu] w1 w2 by (simp only: unpad_example simp_thms)
qed

section \<open>C8: tensors of two shapes\<close>

text \<open>
  Claim C8, amended. \<open>cal_loss\<close> checks no shape. For a prediction shaped (B1, L1, 22)
  and a reference shaped (B2, L2, 22), both batch sizes positive, it fails (with the
  error of the element-wise product in \<open>unpad_angle_vectors\<close>) exactly when the batch
  sizes differ and neither is 1, or the lengths differ and neither is 1. Two shapes that
  differ otherwise are broadcast silently and a loss is returned.
\<close>

theorem C8_shape_mismatch:
  assumes "wf_tensor pred" "wf_tensor gold" "shape pred = [b1, l1, 22]" "shape gold = [b2, l2, 22]"
    "0 < b1" "0 < b2"
  shows "(if (b1 = b2 \<or> b2 = 1 \<or> b1 = 1) \<and> (l1 = l2 \<or> l2 = 1 \<or> l1 = 1)
          then \<exists>v. cal_loss ca angles2coords drmsd pred gold device = Inr v
          else cal_loss ca angles2coords drmsd pred gold device = Inl BroadcastError)"
  using assms by (rule cal_loss_rank3_cases)

theorem C8_shape_mismatch_witness:
  "(\<exists>v. cal_loss False first_angles count_diff
          \<lparr>shape = [1, 1, 22], data = encoded_row 0, dev = Cpu\<rparr>
          \<lparr>shape = [1, 2, 22], data = encoded_row 0 @ encoded_row 11, dev = Cpu\<rparr> Cuda = Inr v) \<and>
   cal_loss False first_angles count_diff
          \<lparr>shape = [1, 2, 22], data = encoded_row 0 @ encoded_row 0, dev = Cpu\<rparr>
          \<lparr>shape = [1, 3, 22], data = encoded_row 0 @ encoded_row 0 @ encoded_row 11, dev = Cpu\<rparr> Cuda
     = Inl BroadcastError"
proof -
  have w1: "wf_tensor \<lparr>shape = [1, 1, 22], data = encoded_row 0, dev = Cpu\<rparr>"
    by (rule wf_rows1) simp
  have w2: "wf_tensor \<lparr>shape = [1, 2, 22], data = encoded_row 0 @ encoded_row 11, dev = Cpu\<rparr>"
    by (rule wf_rows2) simp_all
  have w3: "wf_tensor \<lparr>shape = [1, 2, 22], data = encoded_row 0 @ encoded_row 0, dev = Cpu\<rparr>"
    by (rule wf_rows2) simp_all
  have w4: "wf_tensor \<lparr>shape = [1, 3, 22],
      data = encoded_row 0 @ encoded_row 0 @ encoded_row 11, dev = Cpu\<rparr>"
    by (simp add: wf_tensor_def length_encoded_row)
  show ?thesis
    using C8_shape_mismatch [OF w1 w2, of 1 1 1 2 False first_angles count_diff Cuda]
      C8_shape_mismatch [OF w3 w4, of 1 2 1 3 False first_angles count_diff Cuda]
    by simp
qed

text \<open>
  The claim as stated fails on a prediction of one residue against a reference of two:
  both decode, and the mask stretches the prediction over the two positions of the
  reference.
\<close>

theorem C8_shape_mismatch_counterexample:
  "inverse_trig_transform \<lparr>shape = [1, 1, 22], data = encoded_row 0, dev = Cpu\<rparr> =
     Inr (decoded 1 1 (decode (encoded_row 0))) \<and>
   inverse_trig_transform \<lparr>shape = [1, 2, 22], data = encoded_row 0 @ encoded_row 11, dev = Cpu\<rparr> =
     Inr (decoded 1 2 (decode (encoded_row 0 @ encoded_row 11))) \<and>
   unpad_angle_vectors False (decoded 1 1 (decode (encoded_row 0)))
     (decoded 1 2 (decode (encoded_row 0 @ encoded_row 11))) Cpu =
   Inr (decoded 1 2 (decode (encoded_row 0 @ encoded_row 11)),
        decoded 1 2 (decode (encoded_row 0 @ encoded_row 11)))"
proof -
  have a: "inverse_trig_transform \<lparr>shape = [1, 1, 22], data = encoded_row 0, dev = Cpu\<rparr> =
     Inr (decoded 1 1 (decode (encoded_row 0)))"
    using inverse_trig_transform_rank3 [OF wf_rows1 [of 0 Cpu], of 1 1] by (simp add: decoded_def)
  have b: "inverse_trig_transform
      \<lparr>shape = [1, 2, 22], data = encoded_row 0 @ encoded_row 11, dev = Cpu\<rparr> =
     Inr (decoded 1 2 (decode (encoded_row 0 @ encoded_row 11)))"
    using inverse_trig_transform_rank3 [OF wf_rows2 [of 0 11 Cpu], of 1 2] by (simp add: decoded_def)
  have c: "unpad_angle_vectors False (decoded 1 1 (decode (encoded_row 0)))
     (decoded 1 2 (decode (encoded_row 0 @ encoded_row 11))) Cpu =
   Inr (decoded 1 2 (decode (encoded_row 0 @ encoded_row 11)),
        decoded 1 2 (decode (encoded_row 0 @ encoded_row 11)))"
    by (simp add: unpad_Cpu broadcast_shapes_rank3 masked_by_def expand_to_def align_def
      type_float_def tensor_ne0_def decoded_def decode_append length_encoded_row
      decode_encoded_row)
  from a b c show ?thesis by blast
qed

section \<open>C9: the device argument of the loss\<close>

text \<open>
  Claim C9. \<open>cal_loss\<close> rebinds its device to the CPU before it uses it: its result
  depends neither on the device argument nor on whether the machine has an accelerator,
  so two calls on the same tensors return the same result whatever the two device
  arguments are.
\<close>

theorem C9_device_noninterference:
  "cal_loss ca1 angles2coords drmsd pred gold d1 = cal_loss ca2 angles2coords drmsd pred gold d2"
  by (simp add: cal_loss_def unpad_Cpu)

theorem C9_device_noninterference_witness:
  "cal_loss False first_angles count_diff
     \<lparr>shape = [1, 1, 22], data = encoded_row 3, dev = Cuda\<rparr>
     \<lparr>shape = [1, 1, 22], data = encoded_row 0, dev = Cuda\<rparr> Cuda =
   cal_loss True first_angles count_diff
     \<lparr>shape = [1, 1, 22], data = encoded_row 3, dev = Cuda\<rparr>
     \<lparr>shape = [1, 1, 22], data = encoded_row 0, dev = Cuda\<rparr> Cpu"
  by (rule C9_device_noninterference)

section \<open>C10: an epoch without batches\<close>

text \<open>
  Claim C10. On an empty list of batches the loops of \<open>train_epoch\<close> and \<open>eval_epoch\<close>
  end at once with \<open>n_batches = 0\<close>, and the division \<open>total_loss / n_batches\<close> raises
  \<open>ZeroDivisionError\<close>: no epoch loss is returned.
\<close>

theorem C10_empty_epoch:
  "train_loop ca model backward_step angles2coords drmsd device 0 []
      \<lparr>params = m, total_loss = 0, n_batches = 0, training_losses = [], printed = []\<rparr> =
     Inr \<lparr>params = m, total_loss = 0, n_batches = 0, training_losses = [], printed = []\<rparr> \<and>
   train_epoch ca model backward_step angles2coords drmsd m [] device = Inl ZeroDivisionError \<and>
   eval_loop ca model angles2coords drmsd m device [] (0, 0) = Inr (0, 0) \<and>
   eval_epoch ca model angles2coords drmsd m [] device = Inl ZeroDivisionError"
  by (simp add: train_epoch_def eval_epoch_def)

end
